theory Spec2Isabelle
  imports Complex_Main "HOL-Library.AList"
begin

section \<open>Python exceptions\<close>

text \<open>
  Exceptions are values. The constructors name the exception classes the modelled code
  raises itself; \<open>Raised\<close> carries any other exception, as raised by a collaborator
  (an adapter's transport, a platform SDK).
\<close>

datatype 'e py_exc =
    ValueError string
  | TimeoutError
  | AttributeError
  | TypeError
  | Raised 'e

section \<open>Message router (core/router.py)\<close>

text \<open>
  An adapter is seen by the router through \<open>send_message(to, message_type, content,
  conversation_type)\<close> only: the call either returns a message id or raises.
\<close>

type_synonym 'e adapter = "string \<Rightarrow> string \<Rightarrow> string \<Rightarrow> string \<Rightarrow> 'e py_exc + string"

text \<open>
  Modelled from the spec: the module \<open>core/adapter_manager.py\<close> (class
  \<open>AdapterManager\<close>) is not among the sources. The spec gives \<open>get_adapter(name) ->
  instance | absent\<close> as "lookup only, no side effects" over the live set, which holds
  at most one instance per platform name: the live set is a partial map.
\<close>

type_synonym 'e adapter_manager = "string \<rightharpoonup> 'e adapter"

definition get_adapter :: "'e adapter_manager \<Rightarrow> string \<Rightarrow> 'e adapter option" where
  "get_adapter am name = am name"

text \<open>
  A future stored in \<open>_pending_messages\<close>: pending, or completed by \<open>set_result\<close> or
  \<open>set_exception\<close>.
\<close>

datatype 'e future = Pending | Result string | Exception "'e py_exc"

record 'e message_router =
  adapter_manager :: "'e adapter_manager"
  pending_messages :: "string \<rightharpoonup> 'e future"
  running :: bool

definition route_outgoing ::
  "'e message_router \<Rightarrow> string \<Rightarrow> string \<Rightarrow> string \<Rightarrow> string \<Rightarrow> string \<Rightarrow> 'e py_exc + string" where
  "route_outgoing r platform to message_type content conversation_type =
     (case get_adapter (adapter_manager r) platform of
        None \<Rightarrow> Inl (ValueError (''Adapter not loaded for platform: '' @ platform))
      | Some adapter \<Rightarrow>
          (case adapter to message_type content conversation_type of
             Inr message_id \<Rightarrow> Inr message_id
           | Inl e \<Rightarrow> Inl e))"

text \<open>
  \<open>create_message_id\<close> formats a random UUID; the 32 hex digits drawn are an input of
  the model.
\<close>

definition create_message_id :: "string \<Rightarrow> string" where
  "create_message_id uuid_hex = ''msg_'' @ uuid_hex"

text \<open>
  \<open>asyncio.wait_for(aw, timeout)\<close>: whether the deadline passes before the awaited call
  completes is decided by the scheduler and the transport, so it is an input
  (\<open>deadline_elapsed\<close>); when it does, the caller sees \<open>TimeoutError\<close> whatever the
  call would have produced.
\<close>

definition wait_for :: "bool \<Rightarrow> 'e py_exc + string \<Rightarrow> 'e py_exc + string" where
  "wait_for deadline_elapsed outcome = (if deadline_elapsed then Inl TimeoutError else outcome)"

text \<open>
  \<open>send_and_wait\<close> returns what the caller observes together with the router after the
  call. The future is completed before the \<open>finally\<close> clause pops the entry; the map
  holds a reference to the same future object, so the entry shows the completion until
  it is popped.
\<close>

definition send_and_wait ::
  "'e message_router \<Rightarrow> string \<Rightarrow> bool \<Rightarrow> string \<Rightarrow> string \<Rightarrow> string \<Rightarrow> string \<Rightarrow> string
     \<Rightarrow> ('e py_exc + string) \<times> 'e message_router" where
  "send_and_wait r uuid_hex deadline_elapsed platform to message_type content conversation_type =
     (let message_id = create_message_id uuid_hex;
          r1 = r\<lparr>pending_messages := (pending_messages r)(message_id \<mapsto> Pending)\<rparr>;
          outcome = wait_for deadline_elapsed
                      (route_outgoing r1 platform to message_type content conversation_type);
          r2 = (case outcome of
                  Inr result_id \<Rightarrow>
                    r1\<lparr>pending_messages := (pending_messages r1)(message_id \<mapsto> Result result_id)\<rparr>
                | Inl e \<Rightarrow>
                    r1\<lparr>pending_messages := (pending_messages r1)(message_id \<mapsto> Exception e)\<rparr>);
          r3 = r2\<lparr>pending_messages := (pending_messages r2)(message_id := None)\<rparr>
      in (outcome, r3))"

section \<open>Configuration schemas (api/schemas/config.py)\<close>

text \<open>
  The schemas are Pydantic (v2) models. A configuration document, as \<open>yaml.safe_load\<close>
  returns it, is modelled with one record per section whose fields are optional: \<open>None\<close>
  is a key the document omits, \<open>Some v\<close> a key it gives with a value of the field's type
  (the value Pydantic coerces it to, as a boolean written \<open>"true"\<close>). A document with a
  value that has no reading at the field's type is the separate case \<open>Ill_typed\<close> below.

  Pydantic builds a model field by field, in declaration order (the fields of the base
  class \<open>PlatformConfig\<close> first). For a key that is given, the value is checked and the
  field's \<open>@field_validator\<close> runs with \<open>info.data\<close> holding the fields built so far; for
  a key that is omitted the default is taken as it is, and the validator does not run
  (none of these models sets \<open>validate_default\<close>). All errors of a document are raised
  together as one \<open>ValidationError\<close>, so a model is \<open>None\<close> as soon as one field fails.
\<close>

definition plain_field :: "'a \<Rightarrow> 'a option \<Rightarrow> 'a" where
  "plain_field dflt given = (case given of None \<Rightarrow> dflt | Some v \<Rightarrow> v)"

definition validated_field :: "'a \<Rightarrow> ('a \<Rightarrow> 'a option) \<Rightarrow> 'a option \<Rightarrow> 'a option" where
  "validated_field dflt validator given =
     (case given of None \<Rightarrow> Some dflt | Some v \<Rightarrow> validator v)"

definition literal_field :: "string list \<Rightarrow> string \<Rightarrow> string option \<Rightarrow> string option" where
  "literal_field allowed dflt given =
     validated_field dflt (\<lambda>v. if v \<in> set allowed then Some v else None) given"

subsection \<open>AuthConfig, LoggingConfig, ServerConfig\<close>

record raw_auth =
  raw_auth_type :: "string option"
  raw_auth_token :: "string option"
  raw_auth_jwt_secret :: "string option"
  raw_auth_jwt_algorithm :: "string option"
  raw_auth_jwt_expire_hours :: "int option"

record auth_config =
  auth_type :: string
  auth_token :: string
  auth_jwt_secret :: string
  auth_jwt_algorithm :: string
  auth_jwt_expire_hours :: int

text \<open>
  \<open>validate_fixed_token(v, info)\<close>; \<open>data_type\<close> is \<open>info.data.get("type")\<close>, which is
  absent when the \<open>type\<close> key itself failed its check.
\<close>

definition validate_fixed_token :: "string option \<Rightarrow> string \<Rightarrow> string option" where
  "validate_fixed_token data_type v =
     (if data_type = Some ''fixed_token'' \<and> v = [] then None else Some v)"

definition AuthConfig :: "raw_auth \<Rightarrow> auth_config option" where
  "AuthConfig raw =
     (let type_field = literal_field [''fixed_token'', ''jwt''] ''fixed_token'' (raw_auth_type raw);
          token_field = validated_field [] (validate_fixed_token type_field) (raw_auth_token raw)
      in case (type_field, token_field) of
           (Some ty, Some tok) \<Rightarrow>
             Some \<lparr>auth_type = ty, auth_token = tok,
                   auth_jwt_secret = plain_field [] (raw_auth_jwt_secret raw),
                   auth_jwt_algorithm = plain_field ''HS256'' (raw_auth_jwt_algorithm raw),
                   auth_jwt_expire_hours = plain_field 24 (raw_auth_jwt_expire_hours raw)\<rparr>
         | _ \<Rightarrow> None)"

record raw_logging =
  raw_logging_level :: "string option"
  raw_logging_file :: "string option"
  raw_logging_rotation :: "string option"
  raw_logging_retention :: "string option"

record logging_config =
  logging_level :: string
  logging_file :: string
  logging_rotation :: string
  logging_retention :: string

definition LoggingConfig :: "raw_logging \<Rightarrow> logging_config option" where
  "LoggingConfig raw =
     Some \<lparr>logging_level = plain_field ''INFO'' (raw_logging_level raw),
           logging_file = plain_field ''logs/chatagentcore.log'' (raw_logging_file raw),
           logging_rotation = plain_field ''10 MB'' (raw_logging_rotation raw),
           logging_retention = plain_field ''30 days'' (raw_logging_retention raw)\<rparr>"

record raw_server =
  raw_server_host :: "string option"
  raw_server_port :: "int option"
  raw_server_debug :: "bool option"

record server_config =
  server_host :: string
  server_port :: int
  server_debug :: bool

definition ServerConfig :: "raw_server \<Rightarrow> server_config option" where
  "ServerConfig raw =
     Some \<lparr>server_host = plain_field ''0.0.0.0'' (raw_server_host raw),
           server_port = plain_field 8000 (raw_server_port raw),
           server_debug = plain_field False (raw_server_debug raw)\<rparr>"

subsection \<open>Platform configurations\<close>

record raw_feishu =
  raw_feishu_enabled :: "bool option"
  raw_feishu_type :: "string option"
  raw_feishu_app_id :: "string option"
  raw_feishu_app_secret :: "string option"
  raw_feishu_verification_token :: "string option"
  raw_feishu_encrypt_key :: "string option"
  raw_feishu_connection_mode :: "string option"
  raw_feishu_domain :: "string option"

record feishu_config =
  feishu_enabled :: bool
  feishu_type :: string
  feishu_app_id :: string
  feishu_app_secret :: string
  feishu_verification_token :: string
  feishu_encrypt_key :: string
  feishu_connection_mode :: string
  feishu_domain :: string

text \<open>
  The four platform validators have the same body; \<open>data_enabled\<close> is the truth value of
  \<open>info.data.get("enabled")\<close>.
\<close>

definition validate_feishu_keys :: "bool \<Rightarrow> string \<Rightarrow> string option" where
  "validate_feishu_keys data_enabled v = (if data_enabled \<and> v = [] then None else Some v)"

definition FeishuConfig :: "raw_feishu \<Rightarrow> feishu_config option" where
  "FeishuConfig raw =
     (let enabled = plain_field False (raw_feishu_enabled raw)
      in case (validated_field [] (validate_feishu_keys enabled) (raw_feishu_app_id raw),
               validated_field [] (validate_feishu_keys enabled) (raw_feishu_app_secret raw),
               literal_field [''websocket'', ''webhook''] ''websocket'' (raw_feishu_connection_mode raw),
               literal_field [''feishu'', ''lark''] ''feishu'' (raw_feishu_domain raw)) of
           (Some app_id, Some app_secret, Some connection_mode, Some domain) \<Rightarrow>
             Some \<lparr>feishu_enabled = enabled,
                   feishu_type = plain_field ''app'' (raw_feishu_type raw),
                   feishu_app_id = app_id,
                   feishu_app_secret = app_secret,
                   feishu_verification_token = plain_field [] (raw_feishu_verification_token raw),
                   feishu_encrypt_key = plain_field [] (raw_feishu_encrypt_key raw),
                   feishu_connection_mode = connection_mode,
                   feishu_domain = domain\<rparr>
         | _ \<Rightarrow> None)"

record raw_wecom =
  raw_wecom_enabled :: "bool option"
  raw_wecom_type :: "string option"
  raw_wecom_corp_id :: "string option"
  raw_wecom_agent_id :: "string option"
  raw_wecom_secret :: "string option"
  raw_wecom_token :: "string option"
  raw_wecom_encoding_aes_key :: "string option"

record wecom_config =
  wecom_enabled :: bool
  wecom_type :: string
  wecom_corp_id :: string
  wecom_agent_id :: string
  wecom_secret :: string
  wecom_token :: string
  wecom_encoding_aes_key :: string

definition validate_wecom_keys :: "bool \<Rightarrow> string \<Rightarrow> string option" where
  "validate_wecom_keys data_enabled v = (if data_enabled \<and> v = [] then None else Some v)"

definition WecomConfig :: "raw_wecom \<Rightarrow> wecom_config option" where
  "WecomConfig raw =
     (let enabled = plain_field False (raw_wecom_enabled raw)
      in case (validated_field [] (validate_wecom_keys enabled) (raw_wecom_corp_id raw),
               validated_field [] (validate_wecom_keys enabled) (raw_wecom_agent_id raw),
               validated_field [] (validate_wecom_keys enabled) (raw_wecom_secret raw),
               validated_field [] (validate_wecom_keys enabled) (raw_wecom_token raw),
               validated_field [] (validate_wecom_keys enabled) (raw_wecom_encoding_aes_key raw)) of
           (Some corp_id, Some agent_id, Some secret, Some token, Some encoding_aes_key) \<Rightarrow>
             Some \<lparr>wecom_enabled = enabled,
                   wecom_type = plain_field ''app'' (raw_wecom_type raw),
                   wecom_corp_id = corp_id,
                   wecom_agent_id = agent_id,
                   wecom_secret = secret,
                   wecom_token = token,
                   wecom_encoding_aes_key = encoding_aes_key\<rparr>
         | _ \<Rightarrow> None)"

record raw_dingtalk =
  raw_dingtalk_enabled :: "bool option"
  raw_dingtalk_type :: "string option"
  raw_dingtalk_app_key :: "string option"
  raw_dingtalk_app_secret :: "string option"
  raw_dingtalk_connection_mode :: "string option"
  raw_dingtalk_token :: "string option"
  raw_dingtalk_aes_key :: "string option"

record dingtalk_config =
  dingtalk_enabled :: bool
  dingtalk_type :: string
  dingtalk_app_key :: string
  dingtalk_app_secret :: string
  dingtalk_connection_mode :: string
  dingtalk_token :: string
  dingtalk_aes_key :: string

definition validate_dingtalk_keys :: "bool \<Rightarrow> string \<Rightarrow> string option" where
  "validate_dingtalk_keys data_enabled v = (if data_enabled \<and> v = [] then None else Some v)"

definition DingTalkConfig :: "raw_dingtalk \<Rightarrow> dingtalk_config option" where
  "DingTalkConfig raw =
     (let enabled = plain_field False (raw_dingtalk_enabled raw)
      in case (validated_field [] (validate_dingtalk_keys enabled) (raw_dingtalk_app_key raw),
               validated_field [] (validate_dingtalk_keys enabled) (raw_dingtalk_app_secret raw),
               literal_field [''websocket'', ''webhook''] ''websocket''
                 (raw_dingtalk_connection_mode raw)) of
           (Some app_key, Some app_secret, Some connection_mode) \<Rightarrow>
             Some \<lparr>dingtalk_enabled = enabled,
                   dingtalk_type = plain_field ''app'' (raw_dingtalk_type raw),
                   dingtalk_app_key = app_key,
                   dingtalk_app_secret = app_secret,
                   dingtalk_connection_mode = connection_mode,
                   dingtalk_token = plain_field [] (raw_dingtalk_token raw),
                   dingtalk_aes_key = plain_field [] (raw_dingtalk_aes_key raw)\<rparr>
         | _ \<Rightarrow> None)"

record raw_qq =
  raw_qq_enabled :: "bool option"
  raw_qq_type :: "string option"
  raw_qq_app_id :: "string option"
  raw_qq_token :: "string option"

record qq_config =
  qq_enabled :: bool
  qq_type :: string
  qq_app_id :: string
  qq_token :: string

definition validate_qq_keys :: "bool \<Rightarrow> string \<Rightarrow> string option" where
  "validate_qq_keys data_enabled v = (if data_enabled \<and> v = [] then None else Some v)"

definition QQConfig :: "raw_qq \<Rightarrow> qq_config option" where
  "QQConfig raw =
     (let enabled = plain_field False (raw_qq_enabled raw)
      in case (validated_field [] (validate_qq_keys enabled) (raw_qq_app_id raw),
               validated_field [] (validate_qq_keys enabled) (raw_qq_token raw)) of
           (Some app_id, Some token) \<Rightarrow>
             Some \<lparr>qq_enabled = enabled,
                   qq_type = plain_field ''app'' (raw_qq_type raw),
                   qq_app_id = app_id,
                   qq_token = token\<rparr>
         | _ \<Rightarrow> None)"

subsection \<open>PlatformsConfig and Settings\<close>

text \<open>
  A section the document omits is built by its \<open>default_factory\<close>, the model class
  called with no arguments: the model of the section with no key given.
\<close>

definition no_keys_auth :: raw_auth where
  "no_keys_auth = \<lparr>raw_auth_type = None, raw_auth_token = None, raw_auth_jwt_secret = None,
     raw_auth_jwt_algorithm = None, raw_auth_jwt_expire_hours = None\<rparr>"

definition no_keys_logging :: raw_logging where
  "no_keys_logging = \<lparr>raw_logging_level = None, raw_logging_file = None,
     raw_logging_rotation = None, raw_logging_retention = None\<rparr>"

definition no_keys_server :: raw_server where
  "no_keys_server = \<lparr>raw_server_host = None, raw_server_port = None, raw_server_debug = None\<rparr>"

definition no_keys_feishu :: raw_feishu where
  "no_keys_feishu = \<lparr>raw_feishu_enabled = None, raw_feishu_type = None, raw_feishu_app_id = None,
     raw_feishu_app_secret = None, raw_feishu_verification_token = None,
     raw_feishu_encrypt_key = None, raw_feishu_connection_mode = None, raw_feishu_domain = None\<rparr>"

definition no_keys_wecom :: raw_wecom where
  "no_keys_wecom = \<lparr>raw_wecom_enabled = None, raw_wecom_type = None, raw_wecom_corp_id = None,
     raw_wecom_agent_id = None, raw_wecom_secret = None, raw_wecom_token = None,
     raw_wecom_encoding_aes_key = None\<rparr>"

definition no_keys_dingtalk :: raw_dingtalk where
  "no_keys_dingtalk = \<lparr>raw_dingtalk_enabled = None, raw_dingtalk_type = None,
     raw_dingtalk_app_key = None, raw_dingtalk_app_secret = None,
     raw_dingtalk_connection_mode = None, raw_dingtalk_token = None, raw_dingtalk_aes_key = None\<rparr>"

definition no_keys_qq :: raw_qq where
  "no_keys_qq = \<lparr>raw_qq_enabled = None, raw_qq_type = None, raw_qq_app_id = None,
     raw_qq_token = None\<rparr>"

definition model_field :: "('r \<Rightarrow> 'c option) \<Rightarrow> 'r \<Rightarrow> 'r option \<Rightarrow> 'c option" where
  "model_field model no_keys given = (case given of None \<Rightarrow> model no_keys | Some raw \<Rightarrow> model raw)"

record raw_platforms =
  raw_platforms_feishu :: "raw_feishu option"
  raw_platforms_wecom :: "raw_wecom option"
  raw_platforms_dingtalk :: "raw_dingtalk option"
  raw_platforms_qq :: "raw_qq option"

record platforms_config =
  platforms_feishu :: feishu_config
  platforms_wecom :: wecom_config
  platforms_dingtalk :: dingtalk_config
  platforms_qq :: qq_config

definition no_keys_platforms :: raw_platforms where
  "no_keys_platforms = \<lparr>raw_platforms_feishu = None, raw_platforms_wecom = None,
     raw_platforms_dingtalk = None, raw_platforms_qq = None\<rparr>"

definition PlatformsConfig :: "raw_platforms \<Rightarrow> platforms_config option" where
  "PlatformsConfig raw =
     (case (model_field FeishuConfig no_keys_feishu (raw_platforms_feishu raw),
            model_field WecomConfig no_keys_wecom (raw_platforms_wecom raw),
            model_field DingTalkConfig no_keys_dingtalk (raw_platforms_dingtalk raw),
            model_field QQConfig no_keys_qq (raw_platforms_qq raw)) of
        (Some feishu, Some wecom, Some dingtalk, Some qq) \<Rightarrow>
          Some \<lparr>platforms_feishu = feishu, platforms_wecom = wecom,
                platforms_dingtalk = dingtalk, platforms_qq = qq\<rparr>
      | _ \<Rightarrow> None)"

record raw_settings =
  raw_server :: "raw_server option"
  raw_auth :: "raw_auth option"
  raw_logging :: "raw_logging option"
  raw_platforms :: "raw_platforms option"
  raw_config_file :: "string option"

record settings =
  settings_server :: server_config
  settings_auth :: auth_config
  settings_logging :: logging_config
  settings_platforms :: platforms_config
  settings_config_file :: string

definition no_keys_settings :: raw_settings where
  "no_keys_settings = \<lparr>raw_server = None, raw_auth = None, raw_logging = None,
     raw_platforms = None, raw_config_file = None\<rparr>"

definition Settings :: "raw_settings \<Rightarrow> settings option" where
  "Settings raw =
     (case (model_field ServerConfig no_keys_server (raw_server raw),
            model_field AuthConfig no_keys_auth (raw_auth raw),
            model_field LoggingConfig no_keys_logging (raw_logging raw),
            model_field PlatformsConfig no_keys_platforms (raw_platforms raw)) of
        (Some server, Some auth, Some logging, Some platforms) \<Rightarrow>
          Some \<lparr>settings_server = server, settings_auth = auth, settings_logging = logging,
                settings_platforms = platforms,
                settings_config_file = plain_field ''config/config.yaml'' (raw_config_file raw)\<rparr>
      | _ \<Rightarrow> None)"

section \<open>Configuration manager (core/config_manager.py)\<close>

text \<open>
  What \<open>load\<close> finds at \<open>config_path\<close>: no file; a file that cannot be read or that
  \<open>yaml.safe_load\<close> rejects; or a parsed document, which is either of the shape of
  \<open>raw_settings\<close> or one that Pydantic's type checks reject before any field validator matters (a value of the
  wrong type, a top-level key the settings model does not declare). An empty file is the
  document with no key (\<open>yaml.safe_load(f) or {}\<close>).
\<close>

datatype yaml_document = Ill_typed | Document raw_settings

datatype config_file = Missing | Yaml_error | Parsed yaml_document

datatype load_error = YAMLError | ValidationError

text \<open>
  The fields of \<open>ConfigManager\<close> that \<open>load\<close> and \<open>reload\<close> read or write. A callback is
  known by an identifier; calling it is recorded in the result of \<open>reload\<close>.
\<close>

record 'cb config_manager =
  version :: int
  config :: "settings option"
  raw_config :: yaml_document
  callbacks :: "'cb list"

definition ConfigManager :: "'cb config_manager" where
  "ConfigManager = \<lparr>version = 0, config = None, raw_config = Document no_keys_settings,
     callbacks = []\<rparr>"

definition raw_config_to_settings :: "yaml_document \<Rightarrow> settings option" where
  "raw_config_to_settings raw = (case raw of Ill_typed \<Rightarrow> None | Document d \<Rightarrow> Settings d)"

text \<open>
  \<open>_validate_config\<close> only logs; it returns the warnings it writes and never raises.
\<close>

definition validate_config :: "settings \<Rightarrow> string list" where
  "validate_config cfg =
     (let platforms = settings_platforms cfg;
          enabled_platforms =
            map fst (filter snd
              [(''feishu'', feishu_enabled (platforms_feishu platforms)),
               (''wecom'', wecom_enabled (platforms_wecom platforms)),
               (''dingtalk'', dingtalk_enabled (platforms_dingtalk platforms)),
               (''qq'', qq_enabled (platforms_qq platforms))])
      in (if enabled_platforms = [] then [''No platform enabled''] else [])
         @ (if auth_type (settings_auth cfg) = ''fixed_token'' \<and> auth_token (settings_auth cfg) = []
            then [''auth.token is required when auth.type is fixed_token''] else [])
         @ (if auth_type (settings_auth cfg) = ''jwt'' \<and> auth_jwt_secret (settings_auth cfg) = []
            then [''auth.jwt_secret is required when auth.type is jwt''] else []))"

text \<open>
  \<open>load\<close> returns the settings or the exception raised, and the manager afterwards.
  In the branch for a missing file, \<open>Settings()\<close> is the settings model with no key
  given (the process environment is taken to set none of its fields).
\<close>

definition load :: "config_file \<Rightarrow> 'cb config_manager \<Rightarrow> (load_error + settings) \<times> 'cb config_manager" where
  "load file cm =
     (case file of
        Missing \<Rightarrow>
          (case Settings no_keys_settings of
             None \<Rightarrow> (Inl ValidationError, cm)
           | Some cfg \<Rightarrow>
               (Inr cfg, cm\<lparr>config := Some cfg, raw_config := Document no_keys_settings\<rparr>))
      | Yaml_error \<Rightarrow> (Inl YAMLError, cm)
      | Parsed doc \<Rightarrow>
          (let cm1 = cm\<lparr>raw_config := doc\<rparr>
           in case raw_config_to_settings (raw_config cm1) of
                None \<Rightarrow> (Inl ValidationError, cm1)
              | Some cfg \<Rightarrow>
                  (let cm2 = cm1\<lparr>config := Some cfg\<rparr>;
                       warnings = validate_config cfg;
                       cm3 = cm2\<lparr>version := version cm2 + 1\<rparr>
                   in (Inr cfg, cm3))))"

text \<open>
  \<open>reload\<close>: \<open>load\<close>, then every registered callback is called with the new settings (an
  exception of a callback is caught and logged). The third component lists the calls.
\<close>

definition reload ::
  "config_file \<Rightarrow> 'cb config_manager \<Rightarrow> (load_error + settings) \<times> 'cb config_manager \<times> ('cb \<times> settings) list" where
  "reload file cm =
     (case load file cm of
        (Inl e, cm') \<Rightarrow> (Inl e, cm', [])
      | (Inr cfg, cm') \<Rightarrow> (Inr cfg, cm', map (\<lambda>callback. (callback, cfg)) (callbacks cm')))"

definition on_change :: "'cb \<Rightarrow> 'cb config_manager \<Rightarrow> 'cb config_manager" where
  "on_change callback cm = cm\<lparr>callbacks := callbacks cm @ [callback]\<rparr>"

section \<open>Platform adapters: the canonical message\<close>

subsection \<open>Python values\<close>

text \<open>
  Platform events are JSON-like Python values read with \<open>dict.get\<close>, truth tests and
  \<open>or\<close>. \<open>x.get(k, d)\<close> raises \<open>AttributeError\<close> when \<open>x\<close> is not a dict.
\<close>

datatype pyval =
    PNone
  | PBool bool
  | PInt int
  | PStr string
  | PList "pyval list"
  | PDict "(string \<times> pyval) list"

fun truthy :: "pyval \<Rightarrow> bool" where
  "truthy PNone = False"
| "truthy (PBool b) = b"
| "truthy (PInt i) = (i \<noteq> 0)"
| "truthy (PStr s) = (s \<noteq> [])"
| "truthy (PList xs) = (xs \<noteq> [])"
| "truthy (PDict kvs) = (kvs \<noteq> [])"

definition py_or :: "pyval \<Rightarrow> pyval \<Rightarrow> pyval" where
  "py_or a b = (if truthy a then a else b)"

fun py_get :: "pyval \<Rightarrow> string \<Rightarrow> pyval \<Rightarrow> 'e py_exc + pyval" where
  "py_get (PDict kvs) k d = Inr (case map_of kvs k of None \<Rightarrow> d | Some v \<Rightarrow> v)"
| "py_get _ k d = Inl AttributeError"

definition startswith :: "string \<Rightarrow> string \<Rightarrow> bool" where
  "startswith s p = (take (length p) s = p)"

text \<open>
  \<open>str(x)\<close>: a string is itself; how any other value prints is left to \<open>render\<close>.
\<close>

definition py_str :: "(pyval \<Rightarrow> string) \<Rightarrow> pyval \<Rightarrow> string" where
  "py_str render v = (case v of PStr s \<Rightarrow> s | _ \<Rightarrow> render v)"

definition bind_exc :: "'e + 'a \<Rightarrow> ('a \<Rightarrow> 'e + 'b) \<Rightarrow> 'e + 'b" where
  "bind_exc m f = (case m of Inl e \<Rightarrow> Inl e | Inr x \<Rightarrow> f x)"

subsection \<open>The message record\<close>

text \<open>
  Modelled from the spec: the class \<open>Message\<close> of \<open>adapters/base.py\<close> is not among the
  sources; the adapters build it from keyword arguments. The spec's Canonical Message has
  \<open>platform\<close>, \<open>message_id\<close>, \<open>sender {id, name, type}\<close>, \<open>conversation {id, type}\<close>,
  \<open>content\<close> and \<open>timestamp\<close>. The record keeps the fields up to \<open>conversation\<close>, with
  the values the adapter passes. \<open>content\<close> and \<open>timestamp\<close> are left out: the adapters
  compute them from other inputs and they feed neither \<open>sender\<close> nor \<open>conversation\<close>;
  where the source raises while computing them it produces no message, so every message
  the source produces is one the model produces.
\<close>

record sender_info =
  sender_info_id :: pyval
  sender_info_name :: pyval
  sender_info_type :: pyval

record conversation_info =
  conversation_info_id :: pyval
  conversation_info_type :: pyval

record message =
  message_platform :: string
  message_message_id :: pyval
  message_sender :: sender_info
  message_conversation :: conversation_info

subsection \<open>Feishu (adapters/feishu/__init__.py)\<close>

text \<open>
  The message object of an event: \<open>event.message\<close>, else \<open>event.data.message\<close>, else the
  event itself.
\<close>

definition feishu_message_obj :: "pyval \<Rightarrow> 'e py_exc + pyval" where
  "feishu_message_obj event =
     bind_exc (py_get event ''message'' (PDict [])) (\<lambda>message_obj.
     bind_exc (if \<not> truthy message_obj
               then bind_exc (py_get event ''data'' (PDict [])) (\<lambda>data.
                      if truthy data then py_get data ''message'' (PDict []) else Inr message_obj)
               else Inr message_obj) (\<lambda>message_obj.
     Inr (if \<not> truthy message_obj then event else message_obj)))"

text \<open>
  The sender of an event: \<open>event.sender\<close>, else \<open>event.data.sender\<close>, else \<open>{}\<close>.
\<close>

definition feishu_sender :: "pyval \<Rightarrow> 'e py_exc + pyval" where
  "feishu_sender event =
     bind_exc (py_get event ''sender'' PNone) (\<lambda>sender_info.
     bind_exc (if \<not> truthy sender_info
               then bind_exc (py_get event ''data'' (PDict [])) (\<lambda>data. py_get data ''sender'' PNone)
               else Inr sender_info) (\<lambda>sender_info.
     Inr (py_or sender_info (PDict []))))"

text \<open>
  The sender id, by the three \<open>in\<close> tests on \<open>sender\<close>. A sender that is a non-empty
  string or list passes the \<open>in\<close> tests and raises \<open>AttributeError\<close> at the first
  \<open>sender.get\<close>, which every path reaches (the last one at \<open>sender.get("sender_type",
  "user")\<close>); a number or \<open>True\<close> raises \<open>TypeError\<close> at the first \<open>in\<close>.
\<close>

definition feishu_sender_id :: "(pyval \<Rightarrow> string) \<Rightarrow> pyval \<Rightarrow> 'e py_exc + pyval" where
  "feishu_sender_id render sender =
     (case sender of
        PDict kvs \<Rightarrow>
          (if ''sender_id'' \<in> set (map fst kvs) then
             bind_exc (py_get sender ''sender_id'' (PDict [])) (\<lambda>sender_id_obj.
               py_get sender_id_obj ''open_id'' (PStr []))
           else if ''open_id'' \<in> set (map fst kvs) then py_get sender ''open_id'' (PStr [])
           else if ''sender_type'' \<in> set (map fst kvs) then
             bind_exc (py_get sender ''user_id'' (PStr [])) (\<lambda>user_id.
             bind_exc (py_get sender ''open_id'' (PStr [])) (\<lambda>open_id.
               Inr (py_or (PStr (py_str render user_id)) (PStr (py_str render open_id)))))
           else Inr (PStr []))
      | PStr _ \<Rightarrow> Inl AttributeError
      | PList _ \<Rightarrow> Inl AttributeError
      | _ \<Rightarrow> Inl TypeError)"

text \<open>
  \<open>chat_type = message_obj.get("chat_type", "user") or ("group" if chat_id and
  chat_id.startswith("oc_") else "user")\<close>
\<close>

definition feishu_chat_type :: "pyval \<Rightarrow> pyval \<Rightarrow> 'e py_exc + pyval" where
  "feishu_chat_type message_obj chat_id =
     bind_exc (py_get message_obj ''chat_type'' (PStr ''user'')) (\<lambda>given.
       if truthy given then Inr given
       else if truthy chat_id then
         (case chat_id of
            PStr s \<Rightarrow> Inr (PStr (if startswith s ''oc_'' then ''group'' else ''user''))
          | _ \<Rightarrow> Inl AttributeError)
       else Inr (PStr ''user''))"

definition parse_message_from_event :: "(pyval \<Rightarrow> string) \<Rightarrow> pyval \<Rightarrow> 'e py_exc + message" where
  "parse_message_from_event render event_data =
     bind_exc (py_get event_data ''header'' (PDict [])) (\<lambda>header.
     bind_exc (py_get event_data ''event'' (PDict [])) (\<lambda>event.
     bind_exc (feishu_message_obj event) (\<lambda>message_obj.
     bind_exc (py_get message_obj ''message_id'' (PStr [])) (\<lambda>message_id.
     bind_exc (py_get message_obj ''chat_id'' (PStr [])) (\<lambda>chat_id.
     bind_exc (feishu_sender event) (\<lambda>sender.
     bind_exc (feishu_sender_id render sender) (\<lambda>sender_id.
     bind_exc (py_get sender ''sender_type'' (PStr ''user'')) (\<lambda>sender_type.
     bind_exc (feishu_chat_type message_obj chat_id) (\<lambda>chat_type.
     (let final_conv_id = (if chat_type = PStr ''user'' then sender_id else chat_id)
      in Inr \<lparr>message_platform = ''feishu'',
               message_message_id = message_id,
               message_sender = \<lparr>sender_info_id = sender_id, sender_info_name = sender_type, sender_info_type = sender_type\<rparr>,
               message_conversation = \<lparr>conversation_info_id = final_conv_id, conversation_info_type = chat_type\<rparr>\<rparr>))))))))))"

subsection \<open>DingTalk (adapters/dingtalk/__init__.py)\<close>

text \<open>
  The attributes of the SDK's \<open>ChatbotMessage\<close> that \<open>_parse_message\<close> reads into the
  fields kept here.
\<close>

record chatbot_message =
  ding_message_id :: pyval
  ding_conversation_type :: pyval
  ding_conversation_id :: pyval
  ding_sender_staff_id :: pyval
  ding_sender_id :: pyval
  ding_sender_nick :: pyval

definition parse_message :: "(pyval \<Rightarrow> string) \<Rightarrow> chatbot_message \<Rightarrow> message" where
  "parse_message render ding_msg =
     (let conv_type = (if ding_conversation_type ding_msg = PStr ''2'' then ''group'' else ''user'');
          conv_id = (if conv_type = ''user''
                     then py_or (ding_sender_staff_id ding_msg) (ding_sender_id ding_msg)
                     else ding_conversation_id ding_msg)
      in \<lparr>message_platform = ''dingtalk'',
          message_message_id = PStr (py_str render (ding_message_id ding_msg)),
          message_sender = \<lparr>sender_info_id = py_or (ding_sender_staff_id ding_msg) (ding_sender_id ding_msg),
                     sender_info_name = py_or (ding_sender_nick ding_msg) (PStr ''DingTalkUser''),
                     sender_info_type = PStr ''user''\<rparr>,
          message_conversation = \<lparr>conversation_info_id = conv_id, conversation_info_type = PStr conv_type\<rparr>\<rparr>)"

subsection \<open>QQ (adapters/qq/client.py)\<close>

text \<open>
  The SDK's message and author objects are read with \<open>getattr(obj, name, "")\<close>: an
  attribute is \<open>None\<close> when the object lacks it.
\<close>

definition getattr :: "pyval option \<Rightarrow> pyval \<Rightarrow> pyval" where
  "getattr attribute dflt = (case attribute of None \<Rightarrow> dflt | Some v \<Rightarrow> v)"

record qq_author =
  author_id :: "pyval option"
  author_user_openid :: "pyval option"
  author_member_openid :: "pyval option"

record qq_event =
  qq_author :: "qq_author option"
  qq_author_id :: "pyval option"
  qq_group_openid :: "pyval option"
  qq_channel_id :: "pyval option"
  qq_id :: "pyval option"

text \<open>
  A list or dict cannot be a dictionary key: \<open>_last_msg_ids[conversation_id] = msg_id\<close>
  raises \<open>TypeError\<close> for one.
\<close>

fun hashable :: "pyval \<Rightarrow> bool" where
  "hashable (PList _) = False"
| "hashable (PDict _) = False"
| "hashable _ = True"

text \<open>
  \<open>_handle_message(message, conversation_type)\<close> up to the message it hands to the
  handler, with the adapter's \<open>_last_msg_ids\<close> after it (\<open>None\<close>: the client has no
  adapter). The \<open>except\<close> clause of the source logs the exception; then no message is
  produced.
\<close>

definition handle_message ::
  "(pyval \<times> pyval) list option \<Rightarrow> qq_event \<Rightarrow> string
     \<Rightarrow> 'e py_exc + message \<times> (pyval \<times> pyval) list option" where
  "handle_message last_msg_ids msg conversation_type =
     (let author = qq_author msg;
          sender_id0 =
            (case author of
               None \<Rightarrow> PStr []
             | Some a \<Rightarrow>
                 py_or (getattr (author_id a) (PStr []))
                   (py_or (getattr (author_user_openid a) (PStr []))
                      (getattr (author_member_openid a) (PStr []))));
          sender_id = (if \<not> truthy sender_id0 then getattr (qq_author_id msg) (PStr []) else sender_id0);
          conversation_id =
            (if conversation_type = ''group'' then getattr (qq_group_openid msg) (PStr [])
             else if conversation_type = ''guild'' then getattr (qq_channel_id msg) (PStr [])
             else if conversation_type = ''user'' then sender_id
             else PStr []);
          msg_id = getattr (qq_id msg) (PStr []);
          msg_obj = \<lparr>message_platform = ''qq'',
                     message_message_id = msg_id,
                     message_sender = \<lparr>sender_info_id = sender_id, sender_info_name = PStr ''User'',
                                sender_info_type = PStr ''user''\<rparr>,
                     message_conversation = \<lparr>conversation_info_id = conversation_id,
                                      conversation_info_type = PStr conversation_type\<rparr>\<rparr>
      in case last_msg_ids of
           Some ids \<Rightarrow>
             (if truthy msg_id \<and> truthy conversation_id then
                (if hashable conversation_id
                 then Inr (msg_obj, Some (AList.update conversation_id msg_id ids))
                 else Inl TypeError)
              else Inr (msg_obj, Some ids))
         | None \<Rightarrow> Inr (msg_obj, None))"

text \<open>
  The three event handlers of \<open>QQBotClient\<close>, the only callers of \<open>_handle_message\<close>:
  guild, group and private (C2C) messages.
\<close>

definition on_at_message_create ::
  "(pyval \<times> pyval) list option \<Rightarrow> qq_event \<Rightarrow> 'e py_exc + message \<times> (pyval \<times> pyval) list option" where
  "on_at_message_create last_msg_ids msg = handle_message last_msg_ids msg ''guild''"

definition on_group_at_message_create ::
  "(pyval \<times> pyval) list option \<Rightarrow> qq_event \<Rightarrow> 'e py_exc + message \<times> (pyval \<times> pyval) list option" where
  "on_group_at_message_create last_msg_ids msg = handle_message last_msg_ids msg ''group''"

definition on_c2c_message_create ::
  "(pyval \<times> pyval) list option \<Rightarrow> qq_event \<Rightarrow> 'e py_exc + message \<times> (pyval \<times> pyval) list option" where
  "on_c2c_message_create last_msg_ids msg = handle_message last_msg_ids msg ''user''"

section \<open>Event distribution hub (api/websocket/manager.py)\<close>

subsection \<open>Connections, frames and the transport\<close>

text \<open>
  A \<open>WebSocket\<close> object is known by its identity \<open>id(websocket)\<close>, a natural number.
  The user id of a connection is the string \<open>f"ws_user_{id(websocket)}"\<close>.
\<close>

type_synonym websocket = nat

definition digit_char :: "nat \<Rightarrow> char" where
  "digit_char d = ''0123456789'' ! d"

function str_nat :: "nat \<Rightarrow> string" where
  "str_nat n = (if n < 10 then [digit_char n] else str_nat (n div 10) @ [digit_char (n mod 10)])"
  by pat_completeness auto

termination
  by (relation "measure (\<lambda>n. n)") auto

declare str_nat.simps [simp del]

definition make_user_id :: "websocket \<Rightarrow> string" where
  "make_user_id websocket = ''ws_user_'' @ str_nat websocket"

record conn_info =
  user_id :: string
  authenticated :: bool
  last_seen :: real

text \<open>
  \<open>WSMessage\<close>, the frame the server sends. The payload is a dict or \<open>None\<close>.
\<close>

record ws_message =
  ws_type :: string
  ws_channel :: string
  ws_timestamp :: int
  ws_payload :: "(string \<times> pyval) list option"

text \<open>
  The manager: \<open>_connections\<close> and \<open>_subscriptions\<close> are dicts, modelled as association
  lists in insertion order (an assignment to a new key appends, to an old key replaces
  in place, \<open>del\<close> removes); a set of websockets is a list. \<open>_subscriptions\<close> maps a
  user id to that user's dict from channel to set of websockets.
\<close>

type_synonym channels = "(string \<times> websocket list) list"

record connection_manager =
  connections :: "(websocket \<times> conn_info) list"
  subscriptions :: "(string \<times> channels) list"
  valid_tokens :: "string set"

definition ConnectionManager :: connection_manager where
  "ConnectionManager = \<lparr>connections = [], subscriptions = [], valid_tokens = {''your_api_token''}\<rparr>"

definition set_valid_tokens :: "string list \<Rightarrow> connection_manager \<Rightarrow> connection_manager" where
  "set_valid_tokens tokens h = h\<lparr>valid_tokens := set tokens\<rparr>"

text \<open>
  What the manager does to the outside: a frame a socket took, a frame whose
  \<open>websocket.send_json\<close> raised, a \<open>websocket.close(code)\<close>. Whether a socket takes a
  frame is the transport's matter: \<open>ok websocket\<close> says that sending on it succeeds.
  The clock \<open>time.time()\<close> is the parameter \<open>now\<close>; \<open>int(x)\<close> truncates towards zero.
\<close>

datatype io = Sent websocket ws_message | Send_failed websocket ws_message | Closed websocket nat

definition int_of_float :: "real \<Rightarrow> int" where
  "int_of_float x = (if 0 \<le> x then \<lfloor>x\<rfloor> else \<lceil>x\<rceil>)"

subsection \<open>connect, unsubscribe, disconnect\<close>

text \<open>\<open>websocket.accept()\<close> is taken to succeed.\<close>

definition connect :: "real \<Rightarrow> connection_manager \<Rightarrow> websocket \<Rightarrow> string \<times> connection_manager" where
  "connect now h websocket =
     (let uid = make_user_id websocket
      in (uid,
          h\<lparr>connections :=
               AList.update websocket \<lparr>user_id = uid, authenticated = False, last_seen = now\<rparr>
                 (connections h),
             subscriptions := AList.update uid [] (subscriptions h)\<rparr>))"

definition unsubscribe :: "connection_manager \<Rightarrow> websocket \<Rightarrow> string \<Rightarrow> bool \<times> connection_manager" where
  "unsubscribe h websocket channel =
     (case map_of (connections h) websocket of
        None \<Rightarrow> (False, h)
      | Some info \<Rightarrow>
          (case map_of (subscriptions h) (user_id info) of
             None \<Rightarrow> (False, h)
           | Some chans \<Rightarrow>
               (case map_of chans channel of
                  None \<Rightarrow> (False, h)
                | Some sockets \<Rightarrow>
                    (let sockets' = removeAll websocket sockets;
                         chans' = (if sockets' = [] then AList.delete channel chans
                                   else AList.update channel sockets' chans)
                     in (True, h\<lparr>subscriptions :=
                                    AList.update (user_id info) chans' (subscriptions h)\<rparr>)))))"

text \<open>
  The loop of \<open>disconnect\<close> over the channels of the connection's user, before the user's
  entry is deleted.
\<close>

definition unsubscribe_all :: "connection_manager \<Rightarrow> websocket \<Rightarrow> string list \<Rightarrow> connection_manager" where
  "unsubscribe_all h websocket chs = fold (\<lambda>channel h. snd (unsubscribe h websocket channel)) chs h"

definition disconnect :: "connection_manager \<Rightarrow> websocket \<Rightarrow> connection_manager" where
  "disconnect h websocket =
     (case map_of (connections h) websocket of
        None \<Rightarrow> h
      | Some info \<Rightarrow>
          (let h1 = (case map_of (subscriptions h) (user_id info) of
                       None \<Rightarrow> h
                     | Some chans \<Rightarrow>
                         (let h' = unsubscribe_all h websocket (map fst chans)
                          in h'\<lparr>subscriptions := AList.delete (user_id info) (subscriptions h')\<rparr>))
           in h1\<lparr>connections := AList.delete websocket (connections h1)\<rparr>))"

definition update_last_seen :: "real \<Rightarrow> connection_manager \<Rightarrow> websocket \<Rightarrow> connection_manager" where
  "update_last_seen now h websocket =
     (case map_of (connections h) websocket of
        None \<Rightarrow> h
      | Some info \<Rightarrow>
          h\<lparr>connections := AList.update websocket (info\<lparr>last_seen := now\<rparr>) (connections h)\<rparr>)"

subsection \<open>prune_stale_connections\<close>

fun prune_loop :: "websocket list \<Rightarrow> connection_manager \<Rightarrow> connection_manager \<times> io list" where
  "prune_loop [] h = (h, [])"
| "prune_loop (websocket # stale) h =
     (let (h', out) = prune_loop stale (disconnect h websocket)
      in (h', Closed websocket 1000 # out))"

definition prune_stale_connections ::
  "real \<Rightarrow> connection_manager \<Rightarrow> real \<Rightarrow> nat \<times> connection_manager \<times> io list" where
  "prune_stale_connections now h timeout =
     (let stale = map fst (filter (\<lambda>(websocket, info). now - last_seen info > timeout) (connections h));
          (h', out) = prune_loop stale h
      in (length stale, h', out))"

subsection \<open>send_json and broadcast\<close>

text \<open>
  \<open>send_json\<close> sends the dumped frame, with the clock's time for a timestamp that is
  zero. It catches every exception of the send itself, disconnects the socket and
  returns normally: it never raises.
\<close>

definition dumped :: "real \<Rightarrow> ws_message \<Rightarrow> ws_message" where
  "dumped now data = (if ws_timestamp data = 0 then data\<lparr>ws_timestamp := int_of_float now\<rparr> else data)"

definition send_json ::
  "(websocket \<Rightarrow> bool) \<Rightarrow> real \<Rightarrow> connection_manager \<Rightarrow> websocket \<Rightarrow> ws_message
     \<Rightarrow> connection_manager \<times> io list" where
  "send_json ok now h websocket data =
     (let dumped_data = dumped now data
      in if ok websocket then (h, [Sent websocket dumped_data])
         else (disconnect h websocket, [Send_failed websocket dumped_data]))"

text \<open>
  The wildcard branch of \<open>broadcast\<close>: the loop over \<open>list(self._connections.keys())\<close>.
  As \<open>send_json\<close> never raises, the \<open>except\<close> clause of the loop body is never entered,
  \<open>sent_count\<close> goes up after every call, and the list \<open>disconnected\<close> stays empty.
\<close>

fun broadcast_all ::
  "(websocket \<Rightarrow> bool) \<Rightarrow> real \<Rightarrow> ws_message \<Rightarrow> websocket list \<Rightarrow> connection_manager \<Rightarrow> nat
     \<Rightarrow> nat \<times> connection_manager \<times> io list" where
  "broadcast_all ok now data [] h sent_count = (sent_count, h, [])"
| "broadcast_all ok now data (websocket # rest) h sent_count =
     (let (h1, out1) = send_json ok now h websocket data;
          (n, h2, out2) = broadcast_all ok now data rest h1 (sent_count + 1)
      in (n, h2, out1 @ out2))"

text \<open>
  The channel branch iterates over \<open>list(self._subscriptions.items())\<close>: a snapshot of
  the user ids, each with a reference to that user's live channel dict. A failed send
  disconnects the socket, which empties and removes the dict of the socket's user; the
  snapshot still refers to that dict object. \<open>orphan\<close> is the removed dict, as the loop
  of \<open>disconnect\<close> left it; the iteration carries the orphans so far and reads a user's
  dict there first, else in the manager.
\<close>

definition orphan :: "connection_manager \<Rightarrow> websocket \<Rightarrow> (string \<times> channels) list" where
  "orphan h websocket =
     (case map_of (connections h) websocket of
        None \<Rightarrow> []
      | Some info \<Rightarrow>
          (case map_of (subscriptions h) (user_id info) of
             None \<Rightarrow> []
           | Some chans \<Rightarrow>
               (case map_of (subscriptions (unsubscribe_all h websocket (map fst chans))) (user_id info) of
                  None \<Rightarrow> []
                | Some chans' \<Rightarrow> [(user_id info, chans')])))"

definition channels_of :: "(string \<times> channels) list \<Rightarrow> connection_manager \<Rightarrow> string \<Rightarrow> channels" where
  "channels_of orphans h uid =
     (case map_of orphans uid of
        Some chans \<Rightarrow> chans
      | None \<Rightarrow> (case map_of (subscriptions h) uid of Some chans \<Rightarrow> chans | None \<Rightarrow> []))"

fun broadcast_sockets ::
  "(websocket \<Rightarrow> bool) \<Rightarrow> real \<Rightarrow> ws_message \<Rightarrow> websocket list
     \<Rightarrow> connection_manager \<Rightarrow> (string \<times> channels) list \<Rightarrow> nat
     \<Rightarrow> nat \<times> connection_manager \<times> (string \<times> channels) list \<times> io list" where
  "broadcast_sockets ok now data [] h orphans sent_count = (sent_count, h, orphans, [])"
| "broadcast_sockets ok now data (websocket # rest) h orphans sent_count =
     (let orphans1 = (if ok websocket then orphans else orphans @ orphan h websocket);
          (h1, out1) = send_json ok now h websocket data;
          (n, h2, orphans2, out2) = broadcast_sockets ok now data rest h1 orphans1 (sent_count + 1)
      in (n, h2, orphans2, out1 @ out2))"

fun broadcast_users ::
  "(websocket \<Rightarrow> bool) \<Rightarrow> real \<Rightarrow> ws_message \<Rightarrow> string \<Rightarrow> string list
     \<Rightarrow> connection_manager \<Rightarrow> (string \<times> channels) list \<Rightarrow> nat
     \<Rightarrow> nat \<times> connection_manager \<times> (string \<times> channels) list \<times> io list" where
  "broadcast_users ok now data channel [] h orphans sent_count = (sent_count, h, orphans, [])"
| "broadcast_users ok now data channel (uid # rest) h orphans sent_count =
     (case map_of (channels_of orphans h uid) channel of
        None \<Rightarrow> broadcast_users ok now data channel rest h orphans sent_count
      | Some sockets \<Rightarrow>
          (let (n1, h1, orphans1, out1) = broadcast_sockets ok now data sockets h orphans sent_count;
               (n2, h2, orphans2, out2) = broadcast_users ok now data channel rest h1 orphans1 n1
           in (n2, h2, orphans2, out1 @ out2)))"

definition broadcast ::
  "(websocket \<Rightarrow> bool) \<Rightarrow> real \<Rightarrow> connection_manager \<Rightarrow> ws_message \<Rightarrow> string
     \<Rightarrow> nat \<times> connection_manager \<times> io list" where
  "broadcast ok now h data channel =
     (if channel = ''*'' then broadcast_all ok now data (map fst (connections h)) h 0
      else (let (n, h', orphans, out) =
                  broadcast_users ok now data channel (map fst (subscriptions h)) h [] 0
            in (n, h', out)))"

subsection \<open>subscribe, authentication, and the handlers of client frames\<close>

text \<open>
  \<open>subscribe\<close> indexes \<open>self._subscriptions[user_id]\<close> without a test: \<open>None\<close> is the
  \<open>KeyError\<close> of a connection whose user has no entry.
\<close>

definition subscribe :: "connection_manager \<Rightarrow> websocket \<Rightarrow> string \<Rightarrow> (bool \<times> connection_manager) option" where
  "subscribe h websocket channel =
     (case map_of (connections h) websocket of
        None \<Rightarrow> Some (False, h)
      | Some info \<Rightarrow>
          (case map_of (subscriptions h) (user_id info) of
             None \<Rightarrow> None
           | Some chans \<Rightarrow>
               (let chans1 = (case map_of chans channel of
                                None \<Rightarrow> AList.update channel [] chans
                              | Some _ \<Rightarrow> chans);
                    sockets = (case map_of chans1 channel of None \<Rightarrow> [] | Some s \<Rightarrow> s);
                    chans2 = AList.update channel (List.insert websocket sockets) chans1
                in Some (True, h\<lparr>subscriptions :=
                                   AList.update (user_id info) chans2 (subscriptions h)\<rparr>))))"

definition is_authenticated :: "connection_manager \<Rightarrow> websocket \<Rightarrow> bool" where
  "is_authenticated h websocket =
     (case map_of (connections h) websocket of None \<Rightarrow> False | Some info \<Rightarrow> authenticated info)"

definition set_authenticated :: "connection_manager \<Rightarrow> websocket \<Rightarrow> bool \<Rightarrow> connection_manager" where
  "set_authenticated h websocket value =
     (case map_of (connections h) websocket of
        None \<Rightarrow> h
      | Some info \<Rightarrow>
          h\<lparr>connections := AList.update websocket (info\<lparr>authenticated := value\<rparr>) (connections h)\<rparr>)"

definition validate_token :: "connection_manager \<Rightarrow> string \<Rightarrow> bool" where
  "validate_token h token = (token \<in> valid_tokens h)"

definition get_connection_id :: "connection_manager \<Rightarrow> websocket \<Rightarrow> string option" where
  "get_connection_id h websocket = map_option user_id (map_of (connections h) websocket)"

definition auth_ack :: "real \<Rightarrow> string option \<Rightarrow> ws_message" where
  "auth_ack now uid =
     \<lparr>ws_type = ''auth_ack'', ws_channel = ''system'', ws_timestamp = int_of_float now,
      ws_payload = Some [(''user_id'', (case uid of None \<Rightarrow> PNone | Some u \<Rightarrow> PStr u)),
                         (''status'', PStr ''authenticated'')]\<rparr>"

definition auth_error :: "real \<Rightarrow> ws_message" where
  "auth_error now =
     \<lparr>ws_type = ''error'', ws_channel = ''system'', ws_timestamp = int_of_float now,
      ws_payload = Some [(''error'', PStr ''Invalid token''), (''code'', PInt 401)]\<rparr>"

definition handle_auth ::
  "(websocket \<Rightarrow> bool) \<Rightarrow> real \<Rightarrow> connection_manager \<Rightarrow> websocket \<Rightarrow> string
     \<Rightarrow> bool \<times> connection_manager \<times> io list" where
  "handle_auth ok now h websocket token =
     (if validate_token h token then
        (let h1 = set_authenticated h websocket True;
             uid = get_connection_id h1 websocket;
             (h2, out) = send_json ok now h1 websocket (auth_ack now uid)
         in (True, h2, out))
      else
        (let (h2, out) = send_json ok now h websocket (auth_error now)
         in (False, h2, out)))"

text \<open>
  The loop of \<open>handle_subscribe\<close> over the channels of the frame. The first component is
  \<open>False\<close> when a \<open>subscribe\<close> raised, with the manager as the channels before it left
  it; \<open>handle_subscribe\<close> then raises too, which its own first component \<open>False\<close> says.
\<close>

fun subscribe_each :: "connection_manager \<Rightarrow> websocket \<Rightarrow> string list \<Rightarrow> bool \<times> connection_manager" where
  "subscribe_each h websocket [] = (True, h)"
| "subscribe_each h websocket (channel # rest) =
     (case subscribe h websocket channel of
        None \<Rightarrow> (False, h)
      | Some (_, h1) \<Rightarrow> subscribe_each h1 websocket rest)"

definition subscribed_event :: "real \<Rightarrow> string list \<Rightarrow> ws_message" where
  "subscribed_event now chs =
     \<lparr>ws_type = ''event'', ws_channel = ''system'', ws_timestamp = int_of_float now,
      ws_payload = Some [(''event'', PStr ''subscribed''), (''channels'', PList (map PStr chs))]\<rparr>"

definition handle_subscribe ::
  "(websocket \<Rightarrow> bool) \<Rightarrow> real \<Rightarrow> connection_manager \<Rightarrow> websocket \<Rightarrow> string list
     \<Rightarrow> bool \<times> connection_manager \<times> io list" where
  "handle_subscribe ok now h websocket chs =
     (case subscribe_each h websocket chs of
        (False, h1) \<Rightarrow> (False, h1, [])
      | (True, h1) \<Rightarrow>
          (let (h2, out) = send_json ok now h1 websocket (subscribed_event now chs)
           in (True, h2, out)))"

subsection \<open>The endpoint \<open>/ws/events\<close> (api/main.py)\<close>

text \<open>
  What \<open>websocket.receive_json()\<close> yields in one turn of the endpoint's loop: a frame by
  its \<open>type\<close>, or an exception (the client went away, or sent no JSON, or JSON that is
  no object, on which \<open>data.get\<close> raises). A frame of type
  \<open>auth\<close> or \<open>subscribe\<close> carries \<open>None\<close> when \<open>WSAuthMessage(**data)\<close> or
  \<open>WSSubscribeMessage(**data)\<close> rejects it.
\<close>

datatype client_frame =
    Auth_frame "string option"
  | Ping_frame pyval
  | Subscribe_frame "string list option"
  | Other_frame

datatype received = Frame client_frame | Receive_raised

definition pong :: "real \<Rightarrow> pyval \<Rightarrow> ws_message" where
  "pong now ping_timestamp =
     \<lparr>ws_type = ''pong'', ws_channel = ''system'', ws_timestamp = int_of_float now,
      ws_payload = Some [(''ping_timestamp'', ping_timestamp)]\<rparr>"

text \<open>
  One turn of the loop of \<open>websocket_events\<close>. The first component says whether the loop
  goes on; when it does not (a \<open>return\<close> or an exception), the \<open>finally\<close> clause has
  disconnected the socket.
\<close>

definition websocket_events_turn ::
  "(websocket \<Rightarrow> bool) \<Rightarrow> real \<Rightarrow> connection_manager \<Rightarrow> websocket \<Rightarrow> received
     \<Rightarrow> bool \<times> connection_manager \<times> io list" where
  "websocket_events_turn ok now h websocket r =
     (case r of
        Receive_raised \<Rightarrow> (False, disconnect h websocket, [])
      | Frame data \<Rightarrow>
          (let h0 = update_last_seen now h websocket
           in case data of
                Auth_frame None \<Rightarrow> (False, disconnect h0 websocket, [])
              | Auth_frame (Some token) \<Rightarrow>
                  (let (_, h1, out) = handle_auth ok now h0 websocket token in (True, h1, out))
              | Ping_frame ping_timestamp \<Rightarrow>
                  (let (h1, out) = send_json ok now h0 websocket (pong now ping_timestamp)
                   in (True, h1, out))
              | Subscribe_frame chs \<Rightarrow>
                  (if \<not> is_authenticated h0 websocket
                   then (False, disconnect h0 websocket, [Closed websocket 4008])
                   else (case chs of
                           None \<Rightarrow> (False, disconnect h0 websocket, [])
                         | Some cs \<Rightarrow>
                             (case handle_subscribe ok now h0 websocket cs of
                                (False, h1, out) \<Rightarrow> (False, disconnect h1 websocket, out)
                              | (True, h1, out) \<Rightarrow> (True, h1, out))))
              | Other_frame \<Rightarrow> (True, h0, [])))"

text \<open>
  The states of the manager the running service can reach: from the fresh manager, by a
  token update, a new connection, a turn of some connection's endpoint loop, a broadcast
  or a pruning run, at any time and with any transport. Each of these runs to its end
  before the next begins: no two coroutines are interleaved inside one call.
\<close>

inductive reachable :: "connection_manager \<Rightarrow> bool" where
  fresh: "reachable ConnectionManager"
| tokens: "reachable h \<Longrightarrow> reachable (set_valid_tokens tokens h)"
| connected: "reachable h \<Longrightarrow> reachable (snd (connect now h websocket))"
| turn: "reachable h \<Longrightarrow> reachable (fst (snd (websocket_events_turn ok now h websocket r)))"
| broadcasted: "reachable h \<Longrightarrow> reachable (fst (snd (broadcast ok now h data channel)))"
| pruned: "reachable h \<Longrightarrow> reachable (fst (snd (prune_stale_connections now h timeout)))"

subsection \<open>Observations\<close>

text \<open>The sockets on which a send was attempted, in order; those that took the frame.\<close>

fun attempted :: "io list \<Rightarrow> websocket list" where
  "attempted [] = []"
| "attempted (Sent w m # out) = w # attempted out"
| "attempted (Send_failed w m # out) = w # attempted out"
| "attempted (Closed w c # out) = attempted out"

fun delivered :: "io list \<Rightarrow> websocket list" where
  "delivered [] = []"
| "delivered (Sent w m # out) = w # delivered out"
| "delivered (Send_failed w m # out) = delivered out"
| "delivered (Closed w c # out) = delivered out"

fun closes :: "io list \<Rightarrow> (websocket \<times> nat) list" where
  "closes [] = []"
| "closes (Closed w c # out) = (w, c) # closes out"
| "closes (_ # out) = closes out"

text \<open>The subscriber set of a channel: the sockets in the channel's set of any user.\<close>

definition subscribers :: "connection_manager \<Rightarrow> string \<Rightarrow> websocket list" where
  "subscribers h channel =
     concat (map (\<lambda>(uid, chans). case map_of chans channel of None \<Rightarrow> [] | Some sockets \<Rightarrow> sockets)
               (subscriptions h))"

subsection \<open>Well-formed managers\<close>

text \<open>
  What the manager's operations keep true of its two dicts: keys are not repeated; a
  connection's user id is the one \<open>connect\<close> made for its socket; and every socket in a
  channel set under a user id is a live connection with that user id (\<open>subscribe\<close> puts
  a socket only under its own user).
\<close>

definition every_subscriber ::
  "(string \<Rightarrow> websocket \<Rightarrow> bool) \<Rightarrow> (string \<times> channels) list \<Rightarrow> bool" where
  "every_subscriber P subs =
     list_all (\<lambda>(uid, chans). list_all (\<lambda>(c, sockets). list_all (P uid) sockets) chans) subs"

definition owner :: "connection_manager \<Rightarrow> string \<Rightarrow> websocket \<Rightarrow> bool" where
  "owner h uid w = (case map_of (connections h) w of None \<Rightarrow> False | Some info \<Rightarrow> user_id info = uid)"

definition hub_inv :: "connection_manager \<Rightarrow> bool" where
  "hub_inv h =
     (distinct (map fst (connections h))
      \<and> distinct (map fst (subscriptions h))
      \<and> list_all (\<lambda>(w, info). user_id info = make_user_id w) (connections h)
      \<and> every_subscriber (owner h) (subscriptions h))"

definition subscribers_authenticated :: "connection_manager \<Rightarrow> bool" where
  "subscribers_authenticated h = every_subscriber (\<lambda>uid. is_authenticated h) (subscriptions h)"

definition service_inv :: "connection_manager \<Rightarrow> bool" where
  "service_inv h = (hub_inv h \<and> subscribers_authenticated h)"

section \<open>Predicates and examples of the statements\<close>

text \<open>
  The definitions below embed no code: they are the predicates in which the properties
  are stated and the concrete inputs on which they are evaluated.
\<close>

subsection \<open>Router\<close>

text \<open>
  A router with two live adapters: one returns the recipient as the message id (as the
  Feishu adapter does), one always fails.
\<close>

definition example_router :: "string message_router" where
  "example_router =
     \<lparr>adapter_manager =
        [''feishu'' \<mapsto> (\<lambda>to message_type content conversation_type. Inr to),
         ''dingtalk'' \<mapsto> (\<lambda>to message_type content conversation_type. Inl (Raised ''send failed''))],
      pending_messages = Map.empty,
      running = False\<rparr>"

subsection \<open>Configuration\<close>

text \<open>The settings every model yields when no key is given: the \<open>Field(default=...)\<close> values.\<close>

definition default_settings :: settings where
  "default_settings =
     \<lparr>settings_server = \<lparr>server_host = ''0.0.0.0'', server_port = 8000, server_debug = False\<rparr>,
      settings_auth = \<lparr>auth_type = ''fixed_token'', auth_token = [], auth_jwt_secret = [],
        auth_jwt_algorithm = ''HS256'', auth_jwt_expire_hours = 24\<rparr>,
      settings_logging = \<lparr>logging_level = ''INFO'', logging_file = ''logs/chatagentcore.log'',
        logging_rotation = ''10 MB'', logging_retention = ''30 days''\<rparr>,
      settings_platforms =
        \<lparr>platforms_feishu = \<lparr>feishu_enabled = False, feishu_type = ''app'', feishu_app_id = [],
           feishu_app_secret = [], feishu_verification_token = [], feishu_encrypt_key = [],
           feishu_connection_mode = ''websocket'', feishu_domain = ''feishu''\<rparr>,
         platforms_wecom = \<lparr>wecom_enabled = False, wecom_type = ''app'', wecom_corp_id = [],
           wecom_agent_id = [], wecom_secret = [], wecom_token = [], wecom_encoding_aes_key = []\<rparr>,
         platforms_dingtalk = \<lparr>dingtalk_enabled = False, dingtalk_type = ''app'',
           dingtalk_app_key = [], dingtalk_app_secret = [], dingtalk_connection_mode = ''websocket'',
           dingtalk_token = [], dingtalk_aes_key = []\<rparr>,
         platforms_qq = \<lparr>qq_enabled = False, qq_type = ''app'', qq_app_id = [], qq_token = []\<rparr>\<rparr>,
      settings_config_file = ''config/config.yaml''\<rparr>"

text \<open>
  A document that enables Feishu and gives none of its credential keys:
  \<^verbatim>\<open>platforms: {feishu: {enabled: true}}\<close>.
\<close>

definition feishu_enabled_no_credentials :: raw_settings where
  "feishu_enabled_no_credentials =
     no_keys_settings\<lparr>raw_platforms :=
       Some (no_keys_platforms\<lparr>raw_platforms_feishu :=
         Some (no_keys_feishu\<lparr>raw_feishu_enabled := Some True\<rparr>)\<rparr>)\<rparr>"

text \<open>
  A required credential key that the document gives as the empty string, and a
  \<open>platforms\<close> section in which some platform is enabled with such a key.
\<close>

definition given_empty :: "string option \<Rightarrow> bool" where
  "given_empty field = (field = Some [])"

definition enabled_with_empty_credential :: "raw_platforms \<Rightarrow> bool" where
  "enabled_with_empty_credential p =
     ((case raw_platforms_feishu p of None \<Rightarrow> False
       | Some f \<Rightarrow> raw_feishu_enabled f = Some True
           \<and> (given_empty (raw_feishu_app_id f) \<or> given_empty (raw_feishu_app_secret f)))
      \<or> (case raw_platforms_wecom p of None \<Rightarrow> False
       | Some w \<Rightarrow> raw_wecom_enabled w = Some True
           \<and> (given_empty (raw_wecom_corp_id w) \<or> given_empty (raw_wecom_agent_id w)
              \<or> given_empty (raw_wecom_secret w) \<or> given_empty (raw_wecom_token w)
              \<or> given_empty (raw_wecom_encoding_aes_key w)))
      \<or> (case raw_platforms_dingtalk p of None \<Rightarrow> False
       | Some d \<Rightarrow> raw_dingtalk_enabled d = Some True
           \<and> (given_empty (raw_dingtalk_app_key d) \<or> given_empty (raw_dingtalk_app_secret d)))
      \<or> (case raw_platforms_qq p of None \<Rightarrow> False
       | Some q \<Rightarrow> raw_qq_enabled q = Some True
           \<and> (given_empty (raw_qq_app_id q) \<or> given_empty (raw_qq_token q))))"

subsection \<open>Canonical messages\<close>

text \<open>
  The asymmetric rule for a message and the group or channel handle the platform issued:
  a conversation of type \<open>user\<close> has the sender's id as its id, a conversation of type
  \<open>group\<close> has the handle.
\<close>

definition asymmetric_rule :: "message \<Rightarrow> pyval \<Rightarrow> bool" where
  "asymmetric_rule msg group_handle =
     ((conversation_info_type (message_conversation msg) = PStr ''user'' \<longrightarrow>
         conversation_info_id (message_conversation msg) = sender_info_id (message_sender msg))
      \<and> (conversation_info_type (message_conversation msg) = PStr ''group'' \<longrightarrow>
         conversation_info_id (message_conversation msg) = group_handle))"

text \<open>
  Events of the three platforms. Feishu's \<open>im.message.receive_v1\<close> carries the chat type
  \<open>p2p\<close> for a one-to-one chat and \<open>group\<close> for a group chat; \<open>feishu_user_event\<close> has the
  value \<open>user\<close> instead, which is the parser's own default. DingTalk's conversation type is
  \<open>1\<close> for a one-to-one chat and \<open>2\<close> for a group.
\<close>

definition feishu_p2p_event :: pyval where
  "feishu_p2p_event =
     PDict [(''header'', PDict [(''event_type'', PStr ''im.message.receive_v1'')]),
            (''event'', PDict
               [(''message'', PDict [(''message_id'', PStr ''om_3''), (''chat_id'', PStr ''oc_7''),
                                     (''chat_type'', PStr ''p2p''), (''message_type'', PStr ''text'')]),
                (''sender'', PDict [(''sender_id'', PDict [(''open_id'', PStr ''ou_42'')]),
                                    (''sender_type'', PStr ''user'')])])]"

definition feishu_user_event :: pyval where
  "feishu_user_event =
     PDict [(''header'', PDict [(''event_type'', PStr ''im.message.receive_v1'')]),
            (''event'', PDict
               [(''message'', PDict [(''message_id'', PStr ''om_1''), (''chat_id'', PStr ''oc_7''),
                                     (''chat_type'', PStr ''user''), (''message_type'', PStr ''text'')]),
                (''sender'', PDict [(''sender_id'', PDict [(''open_id'', PStr ''ou_42'')]),
                                    (''sender_type'', PStr ''user'')])])]"

definition feishu_group_event :: pyval where
  "feishu_group_event =
     PDict [(''header'', PDict [(''event_type'', PStr ''im.message.receive_v1'')]),
            (''event'', PDict
               [(''message'', PDict [(''message_id'', PStr ''om_2''), (''chat_id'', PStr ''oc_7''),
                                     (''chat_type'', PStr ''group''), (''message_type'', PStr ''text'')]),
                (''sender'', PDict [(''sender_id'', PDict [(''open_id'', PStr ''ou_42'')]),
                                    (''sender_type'', PStr ''user'')])])]"

definition ding_group_message :: chatbot_message where
  "ding_group_message =
     \<lparr>ding_message_id = PStr ''m1'', ding_conversation_type = PStr ''2'',
      ding_conversation_id = PStr ''cid_9'', ding_sender_staff_id = PStr ''staff_3'',
      ding_sender_id = PStr ''$:LWCP:1'', ding_sender_nick = PStr ''Li''\<rparr>"

definition ding_single_message :: chatbot_message where
  "ding_single_message =
     \<lparr>ding_message_id = PStr ''m2'', ding_conversation_type = PStr ''1'',
      ding_conversation_id = PStr ''cid_4'', ding_sender_staff_id = PStr ''staff_3'',
      ding_sender_id = PStr ''$:LWCP:1'', ding_sender_nick = PStr ''Li''\<rparr>"

definition qq_group_event :: qq_event where
  "qq_group_event =
     \<lparr>qq_author = Some \<lparr>author_id = None, author_user_openid = None,
                         author_member_openid = Some (PStr ''M_8'')\<rparr>,
      qq_author_id = None, qq_group_openid = Some (PStr ''G_2''), qq_channel_id = None,
      qq_id = Some (PStr ''ROBOT1.0_y'')\<rparr>"

definition qq_c2c_event :: qq_event where
  "qq_c2c_event =
     \<lparr>qq_author = Some \<lparr>author_id = None, author_user_openid = Some (PStr ''U_5''),
                         author_member_openid = None\<rparr>,
      qq_author_id = None, qq_group_openid = None, qq_channel_id = None,
      qq_id = Some (PStr ''ROBOT1.0_x'')\<rparr>"

subsection \<open>Hub\<close>

text \<open>
  A socket that is not in the registry, or is there with the given user id.
\<close>

definition dead_or_owned :: "connection_manager \<Rightarrow> string \<Rightarrow> websocket \<Rightarrow> bool" where
  "dead_or_owned h uid w =
     (case map_of (connections h) w of None \<Rightarrow> True | Some info \<Rightarrow> user_id info = uid)"

text \<open>
  The sockets of a channel in a user's channel dict; the user ids all of whose
  subscribed sockets are connections of that user.
\<close>

definition select :: "string \<Rightarrow> channels option \<Rightarrow> websocket list" where
  "select channel entry =
     (case entry of
        None \<Rightarrow> []
      | Some chans \<Rightarrow> (case map_of chans channel of None \<Rightarrow> [] | Some sockets \<Rightarrow> sockets))"

definition owned_sets :: "connection_manager \<Rightarrow> string \<Rightarrow> bool" where
  "owned_sets h uid =
     (\<forall>chans c sockets w. map_of (subscriptions h) uid = Some chans \<longrightarrow>
        map_of chans c = Some sockets \<longrightarrow> w \<in> set sockets \<longrightarrow> owner h uid w)"

text \<open>
  The test of \<open>prune_stale_connections\<close> on one entry of the registry.
\<close>

definition is_stale :: "real \<Rightarrow> real \<Rightarrow> websocket \<times> conn_info \<Rightarrow> bool" where
  "is_stale now timeout = (\<lambda>(w, info). now - last_seen info > timeout)"

text \<open>
  A frame to broadcast.
\<close>

definition example_frame :: ws_message where
  "example_frame =
     \<lparr>ws_type = ''message'', ws_channel = ''messages'', ws_timestamp = 1700000000,
      ws_payload = Some [(''platform'', PStr ''feishu'')]\<rparr>"

text \<open>
  Three live connections: 1 subscribed to \<open>messages\<close>, 2 subscribed to \<open>other\<close> only, 3
  not authenticated and not subscribed. Connection 1 was last seen at time 0, the others
  at times 110 and 115.
\<close>

definition example_hub :: connection_manager where
  "example_hub =
     \<lparr>connections =
        [(1, \<lparr>user_id = ''ws_user_1'', authenticated = True, last_seen = 0\<rparr>),
         (2, \<lparr>user_id = ''ws_user_2'', authenticated = True, last_seen = 110\<rparr>),
         (3, \<lparr>user_id = ''ws_user_3'', authenticated = False, last_seen = 115\<rparr>)],
      subscriptions =
        [(''ws_user_1'', [(''messages'', [1])]),
         (''ws_user_2'', [(''other'', [2])]),
         (''ws_user_3'', [])],
      valid_tokens = {''secret''}\<rparr>"

section \<open>Properties of the router\<close>

text \<open>
  Claim C5. \<open>route_outgoing(platform, ...)\<close> fails with the adapter-not-loaded error
  (a \<open>ValueError\<close> naming the platform) when no live adapter exists for \<open>platform\<close>;
  otherwise its outcome is exactly the outcome of that adapter's \<open>send_message\<close> on the
  same arguments: the message id the adapter produced, or the error it raised, unchanged.
\<close>

theorem route_outgoing_contract:
  "(get_adapter (adapter_manager r) platform = None \<longrightarrow>
      route_outgoing r platform to message_type content conversation_type =
        Inl (ValueError (''Adapter not loaded for platform: '' @ platform)))
   \<and> (\<forall>adapter. get_adapter (adapter_manager r) platform = Some adapter \<longrightarrow>
        (\<forall>message_id. adapter to message_type content conversation_type = Inr message_id \<longrightarrow>
           route_outgoing r platform to message_type content conversation_type = Inr message_id)
        \<and> (\<forall>e. adapter to message_type content conversation_type = Inl e \<longrightarrow>
           route_outgoing r platform to message_type content conversation_type = Inl e))"
  by (simp add: route_outgoing_def)

theorem route_outgoing_contract_witness:
  "route_outgoing example_router ''unknown-platform'' ''ou_1'' ''text'' ''hi'' ''user''
     = Inl (ValueError ''Adapter not loaded for platform: unknown-platform'')
   \<and> route_outgoing example_router ''feishu'' ''ou_1'' ''text'' ''hi'' ''user'' = Inr ''ou_1''
   \<and> route_outgoing example_router ''dingtalk'' ''ou_1'' ''text'' ''hi'' ''user''
     = Inl (Raised ''send failed'')"
  using route_outgoing_contract [of example_router "''unknown-platform''" "''ou_1''" "''text''" "''hi''" "''user''"]
    route_outgoing_contract [of example_router "''feishu''" "''ou_1''" "''text''" "''hi''" "''user''"]
    route_outgoing_contract [of example_router "''dingtalk''" "''ou_1''" "''text''" "''hi''" "''user''"]
  by (simp add: example_router_def get_adapter_def)

text \<open>
  Claim C10. Whatever \<open>send_and_wait\<close> produces (a message id, a timeout, an adapter
  error or the adapter-not-loaded error), the pending-message map after the call has no
  entry under the id the call generated; and when that id was not already a key of the
  map (the generated id is fresh), the map after the call is the map before it.
\<close>

theorem send_and_wait_pending_restored:
  "create_message_id uuid_hex \<notin>
     dom (pending_messages (snd (send_and_wait r uuid_hex deadline_elapsed platform to
            message_type content conversation_type)))
   \<and> (create_message_id uuid_hex \<notin> dom (pending_messages r) \<longrightarrow>
        pending_messages (snd (send_and_wait r uuid_hex deadline_elapsed platform to
            message_type content conversation_type)) = pending_messages r)"
proof -
  let ?out = "wait_for deadline_elapsed
      (route_outgoing (r\<lparr>pending_messages := (pending_messages r)(create_message_id uuid_hex \<mapsto> Pending)\<rparr>)
         platform to message_type content conversation_type)"
  have after: "pending_messages (snd (send_and_wait r uuid_hex deadline_elapsed platform to
            message_type content conversation_type))
        = (pending_messages r)(create_message_id uuid_hex := None)"
    by (cases ?out) (simp_all add: send_and_wait_def Let_def)
  have "create_message_id uuid_hex \<notin> dom (pending_messages r) \<Longrightarrow>
        (pending_messages r)(create_message_id uuid_hex := None) = pending_messages r"
    by (auto simp: dom_def)
  with after show ?thesis by simp
qed

theorem send_and_wait_pending_restored_witness:
  "pending_messages (snd (send_and_wait example_router ''00ff'' False ''feishu'' ''ou_1''
       ''text'' ''hi'' ''user'')) = Map.empty
   \<and> pending_messages (snd (send_and_wait example_router ''00ff'' True ''feishu'' ''ou_1''
       ''text'' ''hi'' ''user'')) = Map.empty
   \<and> pending_messages (snd (send_and_wait example_router ''00ff'' False ''dingtalk'' ''ou_1''
       ''text'' ''hi'' ''user'')) = Map.empty
   \<and> fst (send_and_wait example_router ''00ff'' False ''feishu'' ''ou_1''
       ''text'' ''hi'' ''user'') = Inr ''ou_1''
   \<and> fst (send_and_wait example_router ''00ff'' True ''feishu'' ''ou_1''
       ''text'' ''hi'' ''user'') = Inl TimeoutError"
  using send_and_wait_pending_restored [of "''00ff''" example_router False "''feishu''" "''ou_1''" "''text''" "''hi''" "''user''"]
    send_and_wait_pending_restored [of "''00ff''" example_router True "''feishu''" "''ou_1''" "''text''" "''hi''" "''user''"]
    send_and_wait_pending_restored [of "''00ff''" example_router False "''dingtalk''" "''ou_1''" "''text''" "''hi''" "''user''"]
  by (simp add: example_router_def send_and_wait_def route_outgoing_def get_adapter_def
      wait_for_def create_message_id_def)

section \<open>Properties of the configuration manager\<close>

lemma FeishuConfig_no_keys:
  "FeishuConfig no_keys_feishu = Some (platforms_feishu (settings_platforms default_settings))"
  by (simp add: FeishuConfig_def no_keys_feishu_def plain_field_def validated_field_def
      literal_field_def validate_feishu_keys_def default_settings_def)

lemma WecomConfig_no_keys:
  "WecomConfig no_keys_wecom = Some (platforms_wecom (settings_platforms default_settings))"
  by (simp add: WecomConfig_def no_keys_wecom_def plain_field_def validated_field_def
      validate_wecom_keys_def default_settings_def)

lemma DingTalkConfig_no_keys:
  "DingTalkConfig no_keys_dingtalk = Some (platforms_dingtalk (settings_platforms default_settings))"
  by (simp add: DingTalkConfig_def no_keys_dingtalk_def plain_field_def validated_field_def
      literal_field_def validate_dingtalk_keys_def default_settings_def)

lemma QQConfig_no_keys:
  "QQConfig no_keys_qq = Some (platforms_qq (settings_platforms default_settings))"
  by (simp add: QQConfig_def no_keys_qq_def plain_field_def validated_field_def
      validate_qq_keys_def default_settings_def)

lemma AuthConfig_no_keys: "AuthConfig no_keys_auth = Some (settings_auth default_settings)"
  by (simp add: AuthConfig_def no_keys_auth_def plain_field_def validated_field_def
      literal_field_def validate_fixed_token_def default_settings_def)

lemma PlatformsConfig_no_keys:
  "PlatformsConfig no_keys_platforms = Some (settings_platforms default_settings)"
  by (simp add: PlatformsConfig_def no_keys_platforms_def model_field_def FeishuConfig_no_keys
      WecomConfig_no_keys DingTalkConfig_no_keys QQConfig_no_keys default_settings_def)

lemma Settings_no_keys: "Settings no_keys_settings = Some default_settings"
  by (simp add: Settings_def no_keys_settings_def model_field_def PlatformsConfig_no_keys
      AuthConfig_no_keys ServerConfig_def LoggingConfig_def no_keys_server_def no_keys_logging_def
      plain_field_def default_settings_def)

text \<open>
  The version after \<open>load\<close>: one more than before exactly when a file is present, parses
  and validates; unchanged on every other path. So the version never decreases.
\<close>

lemma load_version:
  "version (snd (load file cm)) =
     (case file of
        Parsed doc \<Rightarrow>
          (case raw_config_to_settings doc of Some cfg \<Rightarrow> version cm + 1 | None \<Rightarrow> version cm)
      | _ \<Rightarrow> version cm)"
  by (simp add: load_def Settings_no_keys Let_def split: config_file.splits option.splits)

lemma load_version_mono: "version cm \<le> version (snd (load file cm))"
  by (simp add: load_version split: config_file.splits option.splits)

lemma load_failure_keeps_snapshot:
  "fst (load file cm) = Inl e \<Longrightarrow>
     config (snd (load file cm)) = config cm \<and> version (snd (load file cm)) = version cm"
  by (auto simp: load_def Settings_no_keys Let_def split: config_file.splits option.splits)

lemma load_document_success:
  "raw_config_to_settings doc = Some cfg \<Longrightarrow>
     load (Parsed doc) cm = (Inr cfg, cm\<lparr>raw_config := doc, config := Some cfg, version := version cm + 1\<rparr>)"
  by (simp add: load_def Let_def)

text \<open>
  Claim C2 (the code departs from it). The claim has every successful \<open>load()\<close> or
  \<open>reload()\<close>, the one of an absent document included, add one to \<open>version\<close>. In the code
  the branch for an absent file returns before \<open>self.version += 1\<close>: the load succeeds,
  the snapshot is replaced by the all-defaults settings, and \<open>version\<close> is what it was.
\<close>

theorem load_missing_file_keeps_version:
  "fst (load Missing cm) = Inr default_settings
   \<and> config (snd (load Missing cm)) = Some default_settings
   \<and> version (snd (load Missing cm)) = version cm
   \<and> fst (reload Missing cm) = Inr default_settings
   \<and> version (fst (snd (reload Missing cm))) = version cm"
  by (simp add: reload_def load_def Settings_no_keys)

lemma Settings_feishu_enabled_no_credentials:
  "Settings feishu_enabled_no_credentials =
     Some (default_settings\<lparr>settings_platforms :=
        (settings_platforms default_settings)\<lparr>platforms_feishu :=
           (platforms_feishu (settings_platforms default_settings))\<lparr>feishu_enabled := True\<rparr>\<rparr>\<rparr>)"
  by (simp add: Settings_def feishu_enabled_no_credentials_def no_keys_settings_def model_field_def
      PlatformsConfig_def no_keys_platforms_def FeishuConfig_def no_keys_feishu_def
      WecomConfig_no_keys DingTalkConfig_no_keys QQConfig_no_keys
      AuthConfig_no_keys ServerConfig_def LoggingConfig_def no_keys_server_def no_keys_logging_def
      plain_field_def validated_field_def literal_field_def validate_feishu_keys_def
      default_settings_def)

text \<open>
  Claim C3 (the code departs from it). The claim has \<open>load()\<close> fail for every document in
  which an enabled platform has an empty required credential. The validators run only
  on keys the document gives, so a document that enables a platform and omits its
  credentials loads: the result has Feishu enabled with empty \<open>app_id\<close> and
  \<open>app_secret\<close>, the snapshot is replaced and \<open>version\<close> goes up.
\<close>

theorem load_accepts_enabled_platform_without_credentials:
  "\<exists>cfg. fst (load (Parsed (Document feishu_enabled_no_credentials)) cm) = Inr cfg
     \<and> feishu_enabled (platforms_feishu (settings_platforms cfg))
     \<and> feishu_app_id (platforms_feishu (settings_platforms cfg)) = []
     \<and> feishu_app_secret (platforms_feishu (settings_platforms cfg)) = []
     \<and> config (snd (load (Parsed (Document feishu_enabled_no_credentials)) cm)) = Some cfg
     \<and> version (snd (load (Parsed (Document feishu_enabled_no_credentials)) cm)) = version cm + 1"
  by (simp add: load_def raw_config_to_settings_def Settings_feishu_enabled_no_credentials Let_def
      default_settings_def)

text \<open>
  What the validators do enforce: a document that enables a platform and gives one of
  its required credentials as the empty string is rejected as a whole, and the snapshot
  and version stay as they were.
\<close>

lemma FeishuConfig_rejects:
  "raw_feishu_enabled f = Some True \<Longrightarrow>
   given_empty (raw_feishu_app_id f) \<or> given_empty (raw_feishu_app_secret f) \<Longrightarrow>
   FeishuConfig f = None"
  by (auto simp: FeishuConfig_def given_empty_def plain_field_def validated_field_def
      validate_feishu_keys_def split: option.splits)

lemma WecomConfig_rejects:
  "raw_wecom_enabled w = Some True \<Longrightarrow>
   given_empty (raw_wecom_corp_id w) \<or> given_empty (raw_wecom_agent_id w)
     \<or> given_empty (raw_wecom_secret w) \<or> given_empty (raw_wecom_token w)
     \<or> given_empty (raw_wecom_encoding_aes_key w) \<Longrightarrow>
   WecomConfig w = None"
  by (auto simp: WecomConfig_def given_empty_def plain_field_def validated_field_def
      validate_wecom_keys_def split: option.splits)

lemma DingTalkConfig_rejects:
  "raw_dingtalk_enabled d = Some True \<Longrightarrow>
   given_empty (raw_dingtalk_app_key d) \<or> given_empty (raw_dingtalk_app_secret d) \<Longrightarrow>
   DingTalkConfig d = None"
  by (auto simp: DingTalkConfig_def given_empty_def plain_field_def validated_field_def
      validate_dingtalk_keys_def split: option.splits)

lemma QQConfig_rejects:
  "raw_qq_enabled q = Some True \<Longrightarrow>
   given_empty (raw_qq_app_id q) \<or> given_empty (raw_qq_token q) \<Longrightarrow>
   QQConfig q = None"
  by (auto simp: QQConfig_def given_empty_def plain_field_def validated_field_def
      validate_qq_keys_def split: option.splits)

lemma PlatformsConfig_rejects:
  "enabled_with_empty_credential p \<Longrightarrow> PlatformsConfig p = None"
  unfolding enabled_with_empty_credential_def PlatformsConfig_def model_field_def
  by (auto split: option.splits
      dest: FeishuConfig_rejects WecomConfig_rejects DingTalkConfig_rejects QQConfig_rejects)

lemma load_rejects_given_empty_credential:
  assumes "raw_platforms d = Some p" and "enabled_with_empty_credential p"
  shows "fst (load (Parsed (Document d)) cm) = Inl ValidationError
    \<and> config (snd (load (Parsed (Document d)) cm)) = config cm
    \<and> version (snd (load (Parsed (Document d)) cm)) = version cm"
proof -
  from assms(2) have "PlatformsConfig p = None"
    by (rule PlatformsConfig_rejects)
  with assms(1) have "Settings d = None"
    by (simp add: Settings_def model_field_def split: option.splits)
  then show ?thesis
    by (simp add: load_def raw_config_to_settings_def Let_def)
qed

section \<open>Properties of the adapters: the conversation id of a canonical message\<close>

lemma bind_exc_Inr: "bind_exc m f = Inr y \<longleftrightarrow> (\<exists>x. m = Inr x \<and> f x = Inr y)"
  by (cases m) (simp_all add: bind_exc_def)

subsection \<open>What each adapter puts into \<open>conversation\<close>\<close>

text \<open>
  DingTalk: a message of conversation type \<open>2\<close> is a group message and keeps the
  platform's conversation id; every other message is a user message and its conversation
  id is the sender id.
\<close>

lemma parse_message_conversation:
  "message_conversation (parse_message render ding_msg) =
     (if ding_conversation_type ding_msg = PStr ''2''
      then \<lparr>conversation_info_id = ding_conversation_id ding_msg,
            conversation_info_type = PStr ''group''\<rparr>
      else \<lparr>conversation_info_id = py_or (ding_sender_staff_id ding_msg) (ding_sender_id ding_msg),
            conversation_info_type = PStr ''user''\<rparr>)"
  by (simp add: parse_message_def Let_def)

lemma parse_message_sender_id:
  "sender_info_id (message_sender (parse_message render ding_msg)) =
     py_or (ding_sender_staff_id ding_msg) (ding_sender_id ding_msg)"
  by (simp add: parse_message_def Let_def)

text \<open>
  QQ: the conversation type is the one the event handler passes; a private message has
  the sender id as conversation id, a group message the \<open>group_openid\<close>, a guild message
  the \<open>channel_id\<close>.
\<close>

lemma handle_message_conversation:
  assumes "(handle_message ids qq_msg conversation_type
              :: 'e py_exc + message \<times> (pyval \<times> pyval) list option) = Inr (msg, ids')"
  shows "message_conversation msg =
     \<lparr>conversation_info_id =
        (if conversation_type = ''group'' then getattr (qq_group_openid qq_msg) (PStr [])
         else if conversation_type = ''guild'' then getattr (qq_channel_id qq_msg) (PStr [])
         else if conversation_type = ''user'' then sender_info_id (message_sender msg)
         else PStr []),
      conversation_info_type = PStr conversation_type\<rparr>"
  using assms
  by (auto simp: handle_message_def Let_def split: option.splits if_splits)

lemma on_c2c_message_create_conversation:
  assumes "(on_c2c_message_create ids qq_msg
              :: 'e py_exc + message \<times> (pyval \<times> pyval) list option) = Inr (msg, ids')"
  shows "message_conversation msg =
     \<lparr>conversation_info_id = sender_info_id (message_sender msg),
      conversation_info_type = PStr ''user''\<rparr>"
  using handle_message_conversation [OF assms [unfolded on_c2c_message_create_def]] by simp

lemma on_group_at_message_create_conversation:
  assumes "(on_group_at_message_create ids qq_msg
              :: 'e py_exc + message \<times> (pyval \<times> pyval) list option) = Inr (msg, ids')"
  shows "message_conversation msg =
     \<lparr>conversation_info_id = getattr (qq_group_openid qq_msg) (PStr []),
      conversation_info_type = PStr ''group''\<rparr>"
  using handle_message_conversation [OF assms [unfolded on_group_at_message_create_def]] by simp

lemma on_at_message_create_conversation:
  assumes "(on_at_message_create ids qq_msg
              :: 'e py_exc + message \<times> (pyval \<times> pyval) list option) = Inr (msg, ids')"
  shows "message_conversation msg =
     \<lparr>conversation_info_id = getattr (qq_channel_id qq_msg) (PStr []),
      conversation_info_type = PStr ''guild''\<rparr>"
  using handle_message_conversation [OF assms [unfolded on_at_message_create_def]] by simp

text \<open>
  A client without an adapter, or an event whose conversation id can be a dictionary
  key, yields a message.
\<close>

lemma handle_message_produces:
  "\<exists>msg. (handle_message None qq_msg conversation_type
             :: 'e py_exc + message \<times> (pyval \<times> pyval) list option) = Inr (msg, None)"
  by (simp add: handle_message_def Let_def)

text \<open>
  Feishu: the conversation type is the \<open>chat_type\<close> the parser settles on, and the
  conversation id is the sender id when that is the string \<open>user\<close> and the \<open>chat_id\<close> of the
  message object in every other case.
\<close>

lemma parse_message_from_event_conversation:
  fixes event_data :: pyval
  assumes "(parse_message_from_event render event_data :: 'e py_exc + message) = Inr msg"
  shows "\<exists>event message_obj chat_id chat_type.
           (py_get event_data ''event'' (PDict []) :: 'e py_exc + pyval) = Inr event
         \<and> (feishu_message_obj event :: 'e py_exc + pyval) = Inr message_obj
         \<and> (py_get message_obj ''chat_id'' (PStr []) :: 'e py_exc + pyval) = Inr chat_id
         \<and> (feishu_chat_type message_obj chat_id :: 'e py_exc + pyval) = Inr chat_type
         \<and> message_conversation msg =
             \<lparr>conversation_info_id =
                (if chat_type = PStr ''user'' then sender_info_id (message_sender msg) else chat_id),
              conversation_info_type = chat_type\<rparr>"
  using assms
  by (auto simp: parse_message_from_event_def bind_exc_Inr Let_def)

text \<open>
  A \<open>chat_type\<close> the event gives that is not empty is taken as it is; only an event with
  none, or an empty one, is classified as \<open>user\<close> or \<open>group\<close>.
\<close>

lemma feishu_chat_type_given:
  assumes "map_of kvs ''chat_type'' = Some given" and "truthy given"
  shows "(feishu_chat_type (PDict kvs) chat_id :: 'e py_exc + pyval) = Inr given"
  using assms by (simp add: feishu_chat_type_def bind_exc_def)

lemma feishu_chat_type_absent:
  assumes "map_of kvs ''chat_type'' = None"
  shows "(feishu_chat_type (PDict kvs) chat_id :: 'e py_exc + pyval) = Inr (PStr ''user'')"
  using assms by (simp add: feishu_chat_type_def bind_exc_def)

subsection \<open>Messages typed \<open>user\<close> or \<open>group\<close>\<close>

text \<open>
  Whenever the type an adapter writes is the string \<open>user\<close> the conversation id is the
  sender id, and whenever it is the string \<open>group\<close> the conversation id is the platform's
  handle (Feishu: the \<open>chat_id\<close> of the event's message object; DingTalk:
  \<open>conversation_id\<close>; QQ: \<open>group_openid\<close>). This says nothing of a message whose type is
  another string.
\<close>

lemma feishu_asymmetric_rule:
  fixes event_data :: pyval
  assumes "(parse_message_from_event render event_data :: 'e py_exc + message) = Inr msg"
  shows "\<exists>event message_obj chat_id.
           (py_get event_data ''event'' (PDict []) :: 'e py_exc + pyval) = Inr event
         \<and> (feishu_message_obj event :: 'e py_exc + pyval) = Inr message_obj
         \<and> (py_get message_obj ''chat_id'' (PStr []) :: 'e py_exc + pyval) = Inr chat_id
         \<and> asymmetric_rule msg chat_id"
  using assms
  by (auto simp: parse_message_from_event_def bind_exc_Inr asymmetric_rule_def Let_def)

lemma dingtalk_asymmetric_rule:
  "asymmetric_rule (parse_message render ding_msg) (ding_conversation_id ding_msg)"
  by (simp add: parse_message_def asymmetric_rule_def Let_def)

lemma qq_asymmetric_rule:
  "(handle_message ids qq_msg conversation_type
      :: 'e py_exc + message \<times> (pyval \<times> pyval) list option) = Inr (msg, ids') \<Longrightarrow>
     asymmetric_rule msg (getattr (qq_group_openid qq_msg) (PStr []))"
  by (auto simp: handle_message_def asymmetric_rule_def Let_def split: option.splits if_splits)

subsection \<open>The adapters on the example events\<close>

lemma parse_feishu_user_event:
  "(parse_message_from_event (\<lambda>v. []) feishu_user_event :: unit py_exc + message) =
     Inr \<lparr>message_platform = ''feishu'', message_message_id = PStr ''om_1'',
          message_sender = \<lparr>sender_info_id = PStr ''ou_42'', sender_info_name = PStr ''user'',
                            sender_info_type = PStr ''user''\<rparr>,
          message_conversation = \<lparr>conversation_info_id = PStr ''ou_42'',
                                  conversation_info_type = PStr ''user''\<rparr>\<rparr>"
  by (simp add: parse_message_from_event_def feishu_user_event_def bind_exc_def
      feishu_message_obj_def feishu_sender_def feishu_sender_id_def feishu_chat_type_def py_or_def)

lemma parse_feishu_group_event:
  "(parse_message_from_event (\<lambda>v. []) feishu_group_event :: unit py_exc + message) =
     Inr \<lparr>message_platform = ''feishu'', message_message_id = PStr ''om_2'',
          message_sender = \<lparr>sender_info_id = PStr ''ou_42'', sender_info_name = PStr ''user'',
                            sender_info_type = PStr ''user''\<rparr>,
          message_conversation = \<lparr>conversation_info_id = PStr ''oc_7'',
                                  conversation_info_type = PStr ''group''\<rparr>\<rparr>"
  by (simp add: parse_message_from_event_def feishu_group_event_def bind_exc_def
      feishu_message_obj_def feishu_sender_def feishu_sender_id_def feishu_chat_type_def py_or_def)

lemma parse_ding_single_message:
  "parse_message (\<lambda>v. []) ding_single_message =
     \<lparr>message_platform = ''dingtalk'', message_message_id = PStr ''m2'',
      message_sender = \<lparr>sender_info_id = PStr ''staff_3'', sender_info_name = PStr ''Li'',
                        sender_info_type = PStr ''user''\<rparr>,
      message_conversation = \<lparr>conversation_info_id = PStr ''staff_3'',
                              conversation_info_type = PStr ''user''\<rparr>\<rparr>"
  by (simp add: parse_message_def ding_single_message_def py_or_def py_str_def Let_def)

lemma parse_ding_group_message:
  "parse_message (\<lambda>v. []) ding_group_message =
     \<lparr>message_platform = ''dingtalk'', message_message_id = PStr ''m1'',
      message_sender = \<lparr>sender_info_id = PStr ''staff_3'', sender_info_name = PStr ''Li'',
                        sender_info_type = PStr ''user''\<rparr>,
      message_conversation = \<lparr>conversation_info_id = PStr ''cid_9'',
                              conversation_info_type = PStr ''group''\<rparr>\<rparr>"
  by (simp add: parse_message_def ding_group_message_def py_or_def py_str_def Let_def)

lemma handle_qq_c2c_event:
  "(on_c2c_message_create (Some []) qq_c2c_event
      :: unit py_exc + message \<times> (pyval \<times> pyval) list option) =
     Inr (\<lparr>message_platform = ''qq'', message_message_id = PStr ''ROBOT1.0_x'',
           message_sender = \<lparr>sender_info_id = PStr ''U_5'', sender_info_name = PStr ''User'',
                             sender_info_type = PStr ''user''\<rparr>,
           message_conversation = \<lparr>conversation_info_id = PStr ''U_5'',
                                   conversation_info_type = PStr ''user''\<rparr>\<rparr>,
          Some [(PStr ''U_5'', PStr ''ROBOT1.0_x'')])"
  by (simp add: on_c2c_message_create_def handle_message_def qq_c2c_event_def getattr_def
      py_or_def Let_def)

lemma handle_qq_group_event:
  "(on_group_at_message_create (Some []) qq_group_event
      :: unit py_exc + message \<times> (pyval \<times> pyval) list option) =
     Inr (\<lparr>message_platform = ''qq'', message_message_id = PStr ''ROBOT1.0_y'',
           message_sender = \<lparr>sender_info_id = PStr ''M_8'', sender_info_name = PStr ''User'',
                             sender_info_type = PStr ''user''\<rparr>,
           message_conversation = \<lparr>conversation_info_id = PStr ''G_2'',
                                   conversation_info_type = PStr ''group''\<rparr>\<rparr>,
          Some [(PStr ''G_2'', PStr ''ROBOT1.0_y'')])"
  by (simp add: on_group_at_message_create_def handle_message_def qq_group_event_def getattr_def
      py_or_def Let_def)

text \<open>
  Claim C4 (the code departs from it). The claim has the conversation id of every
  one-to-one conversation equal the sender's id, and the comment above the test in
  \<open>_parse_message_from_event\<close> says the same: a private chat uses the \<open>open_id\<close>, a group
  chat the \<open>chat_id\<close>. The test itself is \<open>chat_type == "user"\<close>, and a \<open>chat_type\<close> the
  event gives is passed through unchanged. For the one-to-one message of
  \<open>feishu_p2p_event\<close>, whose \<open>chat_type\<close> is \<open>p2p\<close>, the parser therefore produces a message
  of conversation type \<open>p2p\<close> whose conversation id is the chat handle \<open>oc_7\<close>, not the
  sender's \<open>ou_42\<close>. (DingTalk and QQ apply the rule, as the lemmas above show.)
\<close>

theorem feishu_p2p_conversation_keeps_chat_id:
  "(parse_message_from_event (\<lambda>v. []) feishu_p2p_event :: unit py_exc + message) =
     Inr \<lparr>message_platform = ''feishu'', message_message_id = PStr ''om_3'',
          message_sender = \<lparr>sender_info_id = PStr ''ou_42'', sender_info_name = PStr ''user'',
                            sender_info_type = PStr ''user''\<rparr>,
          message_conversation = \<lparr>conversation_info_id = PStr ''oc_7'',
                                  conversation_info_type = PStr ''p2p''\<rparr>\<rparr>"
  by (simp add: parse_message_from_event_def feishu_p2p_event_def bind_exc_def
      feishu_message_obj_def feishu_sender_def feishu_sender_id_def feishu_chat_type_def py_or_def)

section \<open>Properties of the hub\<close>

subsection \<open>What disconnect leaves\<close>

lemma delete_absent: "map_of al k = None \<Longrightarrow> AList.delete k al = al"
  by (simp add: map_of_eq_None_iff)

lemma unsubscribe_connections: "connections (snd (unsubscribe h w c)) = connections h"
  by (simp add: unsubscribe_def Let_def split: option.splits)

lemma unsubscribe_valid_tokens: "valid_tokens (snd (unsubscribe h w c)) = valid_tokens h"
  by (simp add: unsubscribe_def Let_def split: option.splits)

lemma unsubscribe_delete:
  "map_of (connections h) w = Some info \<Longrightarrow>
     AList.delete (user_id info) (subscriptions (snd (unsubscribe h w c)))
       = AList.delete (user_id info) (subscriptions h)"
  by (simp add: unsubscribe_def Let_def delete_update_same split: option.splits)

lemma unsubscribe_all_connections: "connections (unsubscribe_all h w cs) = connections h"
  unfolding unsubscribe_all_def
  by (induction cs arbitrary: h) (simp_all add: unsubscribe_connections)

lemma unsubscribe_all_valid_tokens: "valid_tokens (unsubscribe_all h w cs) = valid_tokens h"
  unfolding unsubscribe_all_def
  by (induction cs arbitrary: h) (simp_all add: unsubscribe_valid_tokens)

lemma unsubscribe_all_delete:
  "map_of (connections h) w = Some info \<Longrightarrow>
     AList.delete (user_id info) (subscriptions (unsubscribe_all h w cs))
       = AList.delete (user_id info) (subscriptions h)"
  unfolding unsubscribe_all_def
  by (induction cs arbitrary: h) (simp_all add: unsubscribe_connections unsubscribe_delete)

lemma disconnect_connections: "connections (disconnect h w) = AList.delete w (connections h)"
  by (simp add: disconnect_def Let_def unsubscribe_all_connections delete_absent
      split: option.splits)

lemma disconnect_valid_tokens: "valid_tokens (disconnect h w) = valid_tokens h"
  by (simp add: disconnect_def Let_def unsubscribe_all_valid_tokens split: option.splits)

lemma disconnect_subscriptions:
  "subscriptions (disconnect h w) =
     (case map_of (connections h) w of
        None \<Rightarrow> subscriptions h
      | Some info \<Rightarrow> AList.delete (user_id info) (subscriptions h))"
  by (simp add: disconnect_def Let_def unsubscribe_all_delete delete_absent split: option.splits)

lemma disconnect_absent: "map_of (connections h) w = None \<Longrightarrow> disconnect h w = h"
  by (simp add: disconnect_def)

subsection \<open>prune_stale_connections\<close>

lemma prune_loop_connections:
  "connections (fst (prune_loop stale h)) = filter (\<lambda>p. fst p \<notin> set stale) (connections h)"
proof (induction stale arbitrary: h)
  case Nil
  show ?case by simp
next
  case (Cons w stale)
  have "filter (\<lambda>p. fst p \<notin> set stale) (AList.delete w (connections h))
      = filter (\<lambda>p. fst p \<notin> set (w # stale)) (connections h)"
    by (induction "connections h") (auto simp: AList.delete_eq intro: filter_cong)
  with Cons.IH [of "disconnect h w"] show ?case
    by (simp add: split_beta disconnect_connections)
qed

lemma prune_loop_closed: "closes (snd (prune_loop stale h)) = map (\<lambda>w. (w, 1000)) stale"
  by (induction stale arbitrary: h) (simp_all add: split_beta)

lemma prune_loop_attempted: "attempted (snd (prune_loop stale h)) = []"
  by (induction stale arbitrary: h) (simp_all add: split_beta)

lemma filter_keys_distinct:
  "distinct (map fst al) \<Longrightarrow>
     filter (\<lambda>p. fst p \<notin> set (map fst (filter (\<lambda>(k, v). P v) al))) al = filter (\<lambda>(k, v). \<not> P v) al"
  by (rule filter_cong) (auto dest: eq_key_imp_eq_value)

lemma prune_result:
  assumes "distinct (map fst (connections h))"
  shows "connections (fst (snd (prune_stale_connections now h timeout)))
           = filter (\<lambda>(w, info). \<not> now - last_seen info > timeout) (connections h)"
    and "closes (snd (snd (prune_stale_connections now h timeout)))
           = map (\<lambda>(w, info). (w, 1000)) (filter (\<lambda>(w, info). now - last_seen info > timeout) (connections h))"
    and "fst (prune_stale_connections now h timeout)
           = length (filter (\<lambda>(w, info). now - last_seen info > timeout) (connections h))"
  using filter_keys_distinct [OF assms, of "\<lambda>info. now - last_seen info > timeout"]
  by (simp_all add: prune_stale_connections_def Let_def split_beta prune_loop_connections
      prune_loop_closed comp_def)

subsection \<open>send_json and handle_auth\<close>

lemma send_json_eq:
  "send_json ok now h w data =
     (if ok w then (h, [Sent w (dumped now data)])
      else (disconnect h w, [Send_failed w (dumped now data)]))"
  by (simp add: send_json_def Let_def)

lemma dumped_auth_error: "dumped now (auth_error now) = auth_error now"
  by (simp add: dumped_def auth_error_def)

lemma dumped_auth_ack: "dumped now (auth_ack now uid) = auth_ack now uid"
  by (simp add: dumped_def auth_ack_def)

lemma is_authenticated_disconnect:
  "is_authenticated (disconnect h w) w' \<Longrightarrow> is_authenticated h w'"
  by (auto simp: is_authenticated_def disconnect_connections delete_conv' split: option.splits if_splits)

lemma handle_auth_invalid:
  assumes "token \<notin> valid_tokens h"
  shows "fst (handle_auth ok now h w token) = False"
    and "snd (snd (handle_auth ok now h w token)) =
           [(if ok w then Sent w else Send_failed w) (auth_error now)]"
    and "ok w \<Longrightarrow> fst (snd (handle_auth ok now h w token)) = h"
    and "\<not> is_authenticated h w' \<Longrightarrow> \<not> is_authenticated (fst (snd (handle_auth ok now h w token))) w'"
  using assms is_authenticated_disconnect [of h w w']
  by (auto simp: handle_auth_def validate_token_def send_json_eq dumped_auth_error)

lemma handle_auth_valid:
  assumes "token \<in> valid_tokens h" and "map_of (connections h) w = Some info" and "ok w"
  shows "handle_auth ok now h w token =
           (True, set_authenticated h w True, [Sent w (auth_ack now (Some (user_id info)))])"
    and "is_authenticated (set_authenticated h w True) w"
  using assms
  by (simp_all add: handle_auth_def validate_token_def send_json_eq dumped_auth_ack
      Let_def set_authenticated_def get_connection_id_def update_conv' is_authenticated_def)

subsection \<open>The wildcard branch of broadcast\<close>

lemma broadcast_all_attempted:
  "attempted (snd (snd (broadcast_all ok now data ws h n))) = ws"
  by (induction ws arbitrary: h n) (simp_all add: split_beta send_json_eq)

lemma broadcast_all_count:
  "fst (broadcast_all ok now data ws h n) = n + length ws"
  by (induction ws arbitrary: h n) (simp_all add: split_beta)

lemma broadcast_all_delivered:
  "delivered (snd (snd (broadcast_all ok now data ws h n))) = filter ok ws"
  by (induction ws arbitrary: h n) (simp_all add: split_beta send_json_eq)

subsection \<open>The channel branch of broadcast\<close>

lemma attempted_append: "attempted (xs @ ys) = attempted xs @ attempted ys"
  by (induction xs rule: attempted.induct) simp_all

lemma delivered_append: "delivered (xs @ ys) = delivered xs @ delivered ys"
  by (induction xs rule: delivered.induct) simp_all

lemma broadcast_sockets_attempted:
  "attempted (snd (snd (snd (broadcast_sockets ok now data ws h orphans n)))) = ws"
  by (induction ws arbitrary: h orphans n) (simp_all add: split_beta send_json_eq Let_def)

lemma broadcast_sockets_delivered:
  "delivered (snd (snd (snd (broadcast_sockets ok now data ws h orphans n)))) = filter ok ws"
  by (induction ws arbitrary: h orphans n) (simp_all add: split_beta send_json_eq Let_def)

lemma broadcast_sockets_count:
  "fst (broadcast_sockets ok now data ws h orphans n) = n + length ws"
  by (induction ws arbitrary: h orphans n) (simp_all add: split_beta Let_def)

text \<open>
  Sending to sockets that are dead or belong to one user touches that user's entries
  only.
\<close>

lemma orphan_key:
  "dead_or_owned h uid w \<Longrightarrow> u \<noteq> uid \<Longrightarrow>
     (map_of (orphan h w) ++ map_of orphans) u = map_of orphans u"
  by (auto simp: orphan_def dead_or_owned_def map_add_def split: option.splits)

lemma disconnect_other_user:
  "dead_or_owned h uid w \<Longrightarrow> u \<noteq> uid \<Longrightarrow>
     map_of (subscriptions (disconnect h w)) u = map_of (subscriptions h) u"
  by (auto simp: disconnect_subscriptions dead_or_owned_def split: option.splits)

lemma disconnect_other_socket:
  "dead_or_owned h uid w \<Longrightarrow> map_of (connections h) w' = Some info' \<Longrightarrow> user_id info' \<noteq> uid \<Longrightarrow>
     map_of (connections (disconnect h w)) w' = Some info'"
  by (auto simp: disconnect_connections delete_conv' dead_or_owned_def split: option.splits)

lemma disconnect_dead_or_owned:
  "dead_or_owned h uid w' \<Longrightarrow> dead_or_owned (disconnect h w) uid w'"
  by (auto simp: disconnect_connections delete_conv' dead_or_owned_def split: option.splits)

lemma broadcast_sockets_footprint:
  assumes "\<forall>w \<in> set ws. dead_or_owned h uid w"
  shows "(\<forall>u. u \<noteq> uid \<longrightarrow>
            map_of (subscriptions (fst (snd (broadcast_sockets ok now data ws h orphans n)))) u
              = map_of (subscriptions h) u)
       \<and> (\<forall>u. u \<noteq> uid \<longrightarrow>
            map_of (fst (snd (snd (broadcast_sockets ok now data ws h orphans n)))) u
              = map_of orphans u)
       \<and> (\<forall>w' info'. map_of (connections h) w' = Some info' \<longrightarrow> user_id info' \<noteq> uid \<longrightarrow>
            map_of (connections (fst (snd (broadcast_sockets ok now data ws h orphans n)))) w'
              = Some info')"
  using assms
proof (induction ws arbitrary: h orphans n)
  case Nil
  show ?case by simp
next
  case (Cons w ws)
  from Cons.prems have w: "dead_or_owned h uid w" and ws: "\<forall>w' \<in> set ws. dead_or_owned h uid w'"
    by simp_all
  show ?case
  proof (cases "ok w")
    case True
    with Cons.IH [OF ws, of orphans "n + 1"] show ?thesis
      by (simp add: split_beta send_json_eq Let_def)
  next
    case False
    from ws have ws': "\<forall>w' \<in> set ws. dead_or_owned (disconnect h w) uid w'"
      by (simp add: disconnect_dead_or_owned)
    from False Cons.IH [OF ws', of "orphans @ orphan h w" "n + 1"] w show ?thesis
      by (simp add: split_beta send_json_eq Let_def orphan_key disconnect_other_user
          disconnect_other_socket)
  qed
qed

lemma owner_dead_or_owned: "owner h uid w \<Longrightarrow> dead_or_owned h uid w"
  by (simp add: owner_def dead_or_owned_def split: option.splits)

lemma broadcast_users_attempted:
  assumes "distinct us"
    and "\<forall>uid \<in> set us. map_of orphans uid = None"
    and "\<forall>uid \<in> set us. owned_sets h uid"
  shows "attempted (snd (snd (snd (broadcast_users ok now data channel us h orphans n))))
           = concat (map (\<lambda>uid. select channel (map_of (subscriptions h) uid)) us)
       \<and> delivered (snd (snd (snd (broadcast_users ok now data channel us h orphans n))))
           = filter ok (concat (map (\<lambda>uid. select channel (map_of (subscriptions h) uid)) us))
       \<and> fst (broadcast_users ok now data channel us h orphans n)
           = n + length (concat (map (\<lambda>uid. select channel (map_of (subscriptions h) uid)) us))"
  using assms
proof (induction us arbitrary: h orphans n)
  case Nil
  show ?case by simp
next
  case (Cons uid us)
  from Cons.prems have d: "distinct us" and notin: "uid \<notin> set us"
    and orph_uid: "map_of orphans uid = None" and orph: "\<forall>u \<in> set us. map_of orphans u = None"
    and own_uid: "owned_sets h uid" and own: "\<forall>u \<in> set us. owned_sets h u"
    by simp_all
  have chans: "channels_of orphans h uid = (case map_of (subscriptions h) uid of Some c \<Rightarrow> c | None \<Rightarrow> [])"
    by (simp add: channels_of_def orph_uid)
  show ?case
  proof (cases "map_of (channels_of orphans h uid) channel")
    case None
    then have "select channel (map_of (subscriptions h) uid) = []"
      by (simp add: chans select_def split: option.splits)
    with None Cons.IH [OF d orph own, of n] show ?thesis
      by simp
  next
    case (Some sockets)
    then obtain cs where cs: "map_of (subscriptions h) uid = Some cs" "map_of cs channel = Some sockets"
      by (auto simp: chans split: option.splits)
    then have sel: "select channel (map_of (subscriptions h) uid) = sockets"
      by (simp add: select_def)
    from own_uid cs have "\<forall>w \<in> set sockets. dead_or_owned h uid w"
      by (auto simp: owned_sets_def intro: owner_dead_or_owned)
    note fp = broadcast_sockets_footprint [OF this, of ok now data orphans n]
    let ?r = "broadcast_sockets ok now data sockets h orphans n"
    let ?h1 = "fst (snd ?r)" and ?o1 = "fst (snd (snd ?r))"
    from fp orph notin have orph1: "\<forall>u \<in> set us. map_of ?o1 u = None"
      by auto
    from fp notin have subs1: "\<forall>u \<in> set us. map_of (subscriptions ?h1) u = map_of (subscriptions h) u"
      by auto
    have own1: "\<forall>u \<in> set us. owned_sets ?h1 u"
    proof
      fix u assume u: "u \<in> set us"
      with notin have ne: "u \<noteq> uid" by auto
      from own u have ou: "owned_sets h u" by simp
      show "owned_sets ?h1 u"
        unfolding owned_sets_def
      proof (intro allI impI)
        fix chans c socks w
        assume a: "map_of (subscriptions ?h1) u = Some chans" "map_of chans c = Some socks" "w \<in> set socks"
        with subs1 u have "map_of (subscriptions h) u = Some chans" by simp
        with ou a have "owner h u w" by (auto simp: owned_sets_def)
        then obtain info where i: "map_of (connections h) w = Some info" "user_id info = u"
          by (auto simp: owner_def split: option.splits)
        with fp ne have "map_of (connections ?h1) w = Some info" by blast
        with i show "owner ?h1 u w" by (simp add: owner_def)
      qed
    qed
    have same: "map (\<lambda>u. select channel (map_of (subscriptions ?h1) u)) us
              = map (\<lambda>u. select channel (map_of (subscriptions h) u)) us"
      using subs1 by (auto intro: map_cong)
    from Cons.IH [OF d orph1 own1, of "fst ?r"] Some sel same show ?thesis
      by (simp add: split_beta attempted_append delivered_append broadcast_sockets_attempted
          broadcast_sockets_delivered broadcast_sockets_count)
  qed
qed

lemma broadcast_users_count:
  "fst (broadcast_users ok now data channel us h orphans n)
     = n + length (attempted (snd (snd (snd (broadcast_users ok now data channel us h orphans n)))))"
proof (induction us arbitrary: h orphans n)
  case Nil
  show ?case by simp
next
  case (Cons uid us)
  show ?case
  proof (cases "map_of (channels_of orphans h uid) channel")
    case None
    with Cons.IH show ?thesis by simp
  next
    case (Some sockets)
    let ?r = "broadcast_sockets ok now data sockets h orphans n"
    from Some Cons.IH [of "fst (snd ?r)" "fst (snd (snd ?r))" "fst ?r"] show ?thesis
      by (simp add: split_beta attempted_append broadcast_sockets_attempted broadcast_sockets_count)
  qed
qed

lemma broadcast_users_delivered:
  "delivered (snd (snd (snd (broadcast_users ok now data channel us h orphans n))))
     = filter ok (attempted (snd (snd (snd (broadcast_users ok now data channel us h orphans n)))))"
proof (induction us arbitrary: h orphans n)
  case Nil
  show ?case by simp
next
  case (Cons uid us)
  show ?case
  proof (cases "map_of (channels_of orphans h uid) channel")
    case None
    with Cons.IH show ?thesis by simp
  next
    case (Some sockets)
    let ?r = "broadcast_sockets ok now data sockets h orphans n"
    from Some Cons.IH [of "fst (snd ?r)" "fst (snd (snd ?r))" "fst ?r"] show ?thesis
      by (simp add: split_beta attempted_append delivered_append broadcast_sockets_attempted
          broadcast_sockets_delivered)
  qed
qed

text \<open>
  The number \<open>broadcast\<close> returns is the number of sends it attempted; the sends that
  succeeded are those to the sockets the transport serves.
\<close>

lemma broadcast_counts_attempts:
  "fst (broadcast ok now h data channel) = length (attempted (snd (snd (broadcast ok now h data channel))))"
  using broadcast_users_count [of ok now data channel "map fst (subscriptions h)" h "[]" 0]
  by (simp add: broadcast_def split_beta broadcast_all_attempted broadcast_all_count)

lemma broadcast_delivered:
  "delivered (snd (snd (broadcast ok now h data channel)))
     = filter ok (attempted (snd (snd (broadcast ok now h data channel))))"
  using broadcast_users_delivered [of ok now data channel "map fst (subscriptions h)" h "[]" 0]
  by (simp add: broadcast_def split_beta broadcast_all_attempted broadcast_all_delivered)

lemma every_subscriber_iff:
  "every_subscriber P subs \<longleftrightarrow>
     (\<forall>uid chans c sockets w. (uid, chans) \<in> set subs \<longrightarrow> (c, sockets) \<in> set chans \<longrightarrow>
        w \<in> set sockets \<longrightarrow> P uid w)"
  by (fastforce simp: every_subscriber_def list_all_iff)

lemma keys_lookup:
  "distinct (map fst al) \<Longrightarrow>
     map (\<lambda>k. g (map_of al k)) (map fst al) = map (\<lambda>(k, v). g (Some v)) al"
proof (induction al)
  case Nil
  show ?case by simp
next
  case (Cons p al)
  obtain k v where p: "p = (k, v)" by (cases p)
  from Cons.prems p have "k \<notin> fst ` set al" and d: "distinct (map fst al)"
    by simp_all
  then have "map (\<lambda>k'. g (map_of (p # al) k')) (map fst al) = map (\<lambda>k'. g (map_of al k')) (map fst al)"
    by (auto simp: p intro!: map_cong)
  with Cons.IH [OF d] show ?case
    by (simp add: p)
qed

lemma hub_inv_owned_sets: "hub_inv h \<Longrightarrow> owned_sets h uid"
  unfolding hub_inv_def owned_sets_def every_subscriber_iff
  by (blast dest: map_of_SomeD)

lemma broadcast_channel_attempted:
  assumes "hub_inv h" and "channel \<noteq> ''*''"
  shows "attempted (snd (snd (broadcast ok now h data channel))) = subscribers h channel"
proof -
  from assms(1) have d: "distinct (map fst (subscriptions h))"
    by (simp add: hub_inv_def)
  have "attempted (snd (snd (snd (broadcast_users ok now data channel (map fst (subscriptions h)) h [] 0))))
      = concat (map (\<lambda>uid. select channel (map_of (subscriptions h) uid)) (map fst (subscriptions h)))"
    using broadcast_users_attempted [OF d, of "[]" h ok now data channel 0] assms(1)
    by (simp add: hub_inv_owned_sets)
  also have "map (\<lambda>uid. select channel (map_of (subscriptions h) uid)) (map fst (subscriptions h))
      = map (\<lambda>(uid, chans). select channel (Some chans)) (subscriptions h)"
    using d by (rule keys_lookup)
  finally show ?thesis
    using assms(2) by (simp add: broadcast_def split_beta subscribers_def select_def)
qed

subsection \<open>The operations keep the manager well formed\<close>

lemma set_delete: "set (AList.delete k al) = {p \<in> set al. fst p \<noteq> k}"
  by (auto simp: AList.delete_eq)

lemma set_update_distinct:
  "distinct (map fst al) \<Longrightarrow> set (AList.update k v al) = insert (k, v) {p \<in> set al. fst p \<noteq> k}"
  by (induction al) (auto simp: rev_image_eqI)

lemma hub_inv_iff:
  "hub_inv h \<longleftrightarrow>
     distinct (map fst (connections h)) \<and> distinct (map fst (subscriptions h))
     \<and> (\<forall>w info. map_of (connections h) w = Some info \<longrightarrow> user_id info = make_user_id w)
     \<and> (\<forall>uid chans c sockets w. (uid, chans) \<in> set (subscriptions h) \<longrightarrow>
          (c, sockets) \<in> set chans \<longrightarrow> w \<in> set sockets \<longrightarrow>
          (\<exists>info. map_of (connections h) w = Some info \<and> user_id info = uid))"
proof -
  have a: "distinct (map fst (connections h)) \<Longrightarrow>
      list_all (\<lambda>(w, info). user_id info = make_user_id w) (connections h)
        \<longleftrightarrow> (\<forall>w info. map_of (connections h) w = Some info \<longrightarrow> user_id info = make_user_id w)"
    by (auto simp: list_all_iff)
  have b: "owner h uid w \<longleftrightarrow> (\<exists>info. map_of (connections h) w = Some info \<and> user_id info = uid)"
    for uid w
    by (simp add: owner_def split: option.splits)
  show ?thesis
    unfolding hub_inv_def every_subscriber_iff b using a by blast
qed

lemma subscribers_authenticated_iff:
  "subscribers_authenticated h \<longleftrightarrow>
     (\<forall>uid chans c sockets w. (uid, chans) \<in> set (subscriptions h) \<longrightarrow>
          (c, sockets) \<in> set chans \<longrightarrow> w \<in> set sockets \<longrightarrow> is_authenticated h w)"
  by (simp add: subscribers_authenticated_def every_subscriber_iff)

lemma hub_inv_ConnectionManager: "hub_inv ConnectionManager"
  by (simp add: hub_inv_def ConnectionManager_def every_subscriber_def)

lemma hub_inv_set_valid_tokens: "hub_inv h \<Longrightarrow> hub_inv (set_valid_tokens tokens h)"
  unfolding hub_inv_iff by (simp add: set_valid_tokens_def del: map_of_eq_Some_iff)

lemma hub_inv_disconnect:
  assumes "hub_inv h"
  shows "hub_inv (disconnect h w)"
proof (cases "map_of (connections h) w")
  case None
  with assms show ?thesis by (simp add: disconnect_absent)
next
  case (Some info)
  with assms show ?thesis
    unfolding hub_inv_iff
    by (simp add: disconnect_connections disconnect_subscriptions distinct_delete delete_conv'
        set_delete del: map_of_eq_Some_iff) (metis option.inject)
qed

lemma hub_inv_connect:
  assumes "hub_inv h"
  shows "hub_inv (snd (connect now h w))"
  using assms unfolding hub_inv_iff
  by (simp add: connect_def Let_def distinct_update update_conv' set_update_distinct
      del: map_of_eq_Some_iff) blast

lemma hub_inv_update_info:
  assumes inv: "hub_inv h" and w: "map_of (connections h) w = Some info"
    and uid: "user_id info' = user_id info"
  shows "hub_inv (h\<lparr>connections := AList.update w info' (connections h)\<rparr>)"
proof -
  let ?h = "h\<lparr>connections := AList.update w info' (connections h)\<rparr>"
  have look: "map_of (connections ?h) w' = (if w' = w then Some info' else map_of (connections h) w')"
    for w'
    by (simp add: update_conv')
  have 1: "user_id i = make_user_id w'" if "map_of (connections ?h) w' = Some i" for w' i
    using that inv w uid unfolding look hub_inv_iff
    by (auto split: if_splits)
  have 2: "\<exists>i. map_of (connections ?h) w' = Some i \<and> user_id i = u"
    if "(u, chans) \<in> set (subscriptions ?h)" "(c, sockets) \<in> set chans" "w' \<in> set sockets"
    for u chans c sockets w'
  proof -
    from that inv obtain i where i: "map_of (connections h) w' = Some i" "user_id i = u"
      unfolding hub_inv_iff by fastforce
    with w uid show ?thesis
      unfolding look by auto
  qed
  from inv have "distinct (map fst (connections ?h))" "distinct (map fst (subscriptions ?h))"
    by (simp_all add: hub_inv_iff distinct_update)
  with 1 2 show ?thesis
    unfolding hub_inv_iff by blast
qed

lemma hub_inv_update_last_seen: "hub_inv h \<Longrightarrow> hub_inv (update_last_seen now h w)"
  by (cases "map_of (connections h) w") (simp_all add: update_last_seen_def hub_inv_update_info)

lemma hub_inv_set_authenticated: "hub_inv h \<Longrightarrow> hub_inv (set_authenticated h w b)"
  by (cases "map_of (connections h) w") (simp_all add: set_authenticated_def hub_inv_update_info)

lemma set_update_subset: "set (AList.update k v al) \<subseteq> insert (k, v) (set al)"
  by (induction al) auto

lemma subscribe_connections:
  "subscribe h w c = Some (b, h') \<Longrightarrow> connections h' = connections h \<and> valid_tokens h' = valid_tokens h"
  by (auto simp: subscribe_def Let_def split: option.splits)

text \<open>
  \<open>subscribe\<close> adds the socket under its own user id and nothing else: a property of
  every subscriber that holds of the socket under its user id still holds afterwards.
\<close>

lemma every_subscriber_subscribe:
  assumes P: "every_subscriber P (subscriptions h)"
    and d: "distinct (map fst (subscriptions h))"
    and s: "subscribe h w c = Some (b, h')"
    and w: "\<And>info. map_of (connections h) w = Some info \<Longrightarrow> P (user_id info) w"
  shows "every_subscriber P (subscriptions h')"
proof (cases "map_of (connections h) w")
  case None
  with s P show ?thesis by (simp add: subscribe_def)
next
  case (Some info)
  with s obtain chans where chans: "map_of (subscriptions h) (user_id info) = Some chans"
    by (auto simp: subscribe_def split: option.splits)
  define chans1 where "chans1 = (case map_of chans c of None \<Rightarrow> AList.update c [] chans | Some _ \<Rightarrow> chans)"
  define sockets where "sockets = (case map_of chans1 c of None \<Rightarrow> [] | Some s \<Rightarrow> s)"
  define chans2 where "chans2 = AList.update c (List.insert w sockets) chans1"
  from s Some chans have h': "subscriptions h' = AList.update (user_id info) chans2 (subscriptions h)"
    by (auto simp: subscribe_def Let_def chans1_def sockets_def chans2_def)
  from chans have in_subs: "(user_id info, chans) \<in> set (subscriptions h)"
    by (rule map_of_SomeD)
  have old: "P (user_id info) w'" if "(c', s') \<in> set chans" "w' \<in> set s'" for c' s' w'
    using P in_subs that unfolding every_subscriber_iff by blast
  have sockets_old: "P (user_id info) w'" if "w' \<in> set sockets" for w'
  proof (cases "map_of chans c")
    case None
    then have "sockets = []"
      by (simp add: sockets_def chans1_def update_conv')
    with that show ?thesis by simp
  next
    case (Some s0)
    then have "sockets = s0" by (simp add: sockets_def chans1_def)
    with Some that old show ?thesis by (blast dest: map_of_SomeD)
  qed
  have chans1: "P (user_id info) w'" if "(c', s') \<in> set chans1" "w' \<in> set s'" for c' s' w'
  proof -
    from that(1) have "(c', s') \<in> insert (c, []) (set chans)"
      using set_update_subset [of c "[]" chans] by (auto simp: chans1_def split: option.splits)
    with that(2) old show ?thesis by auto
  qed
  have new: "P (user_id info) w'" if "(c', s') \<in> set chans2" "w' \<in> set s'" for c' s' w'
  proof -
    from that(1) have "(c', s') = (c, List.insert w sockets) \<or> (c', s') \<in> set chans1"
      using set_update_subset [of c "List.insert w sockets" chans1] by (auto simp: chans2_def)
    with that(2) chans1 sockets_old w [OF Some] show ?thesis by auto
  qed
  show ?thesis
    unfolding every_subscriber_iff h'
  proof (intro allI impI)
    fix uid cs c' s' w'
    assume a: "(uid, cs) \<in> set (AList.update (user_id info) chans2 (subscriptions h))"
      "(c', s') \<in> set cs" "w' \<in> set s'"
    from a(1) have "(uid, cs) = (user_id info, chans2) \<or> (uid, cs) \<in> set (subscriptions h)"
      using set_update_subset [of "user_id info" chans2 "subscriptions h"] by auto
    then show "P uid w'"
    proof
      assume "(uid, cs) = (user_id info, chans2)"
      with a new show ?thesis by auto
    next
      assume "(uid, cs) \<in> set (subscriptions h)"
      with a P show ?thesis unfolding every_subscriber_iff by blast
    qed
  qed
qed

lemma hub_inv_subscribe:
  assumes inv: "hub_inv h" and s: "subscribe h w c = Some (b, h')"
  shows "hub_inv h'"
proof -
  from s have c: "connections h' = connections h"
    by (simp add: subscribe_connections)
  then have o: "owner h' = owner h"
    by (simp add: fun_eq_iff owner_def)
  from inv have d: "distinct (map fst (subscriptions h))" and P: "every_subscriber (owner h) (subscriptions h)"
    by (simp_all add: hub_inv_def)
  have "every_subscriber (owner h) (subscriptions h')"
    using P d s by (rule every_subscriber_subscribe) (simp add: owner_def)
  moreover from s d have "distinct (map fst (subscriptions h'))"
    by (auto simp: subscribe_def Let_def distinct_update split: option.splits)
  ultimately show ?thesis
    using inv by (simp add: hub_inv_def c o)
qed

subsection \<open>Only authenticated connections are subscribed\<close>

lemma service_inv_ConnectionManager: "service_inv ConnectionManager"
  by (simp add: service_inv_def hub_inv_ConnectionManager)
     (simp add: subscribers_authenticated_def every_subscriber_def ConnectionManager_def)

lemma service_inv_set_valid_tokens: "service_inv h \<Longrightarrow> service_inv (set_valid_tokens tokens h)"
  by (simp add: service_inv_def hub_inv_set_valid_tokens subscribers_authenticated_iff)
     (simp add: set_valid_tokens_def is_authenticated_def)

lemma service_inv_disconnect:
  assumes "service_inv h"
  shows "service_inv (disconnect h w)"
proof (cases "map_of (connections h) w")
  case None
  with assms show ?thesis by (simp add: disconnect_absent)
next
  case (Some info)
  from assms have inv: "hub_inv h" and auth: "subscribers_authenticated h"
    by (simp_all add: service_inv_def)
  have "is_authenticated (disconnect h w) w'"
    if a: "(u, chans) \<in> set (subscriptions (disconnect h w))" "(c, sockets) \<in> set chans"
      "w' \<in> set sockets" for u chans c sockets w'
  proof -
    from a(1) Some have u: "(u, chans) \<in> set (subscriptions h)" "u \<noteq> user_id info"
      by (simp_all add: disconnect_subscriptions set_delete)
    with inv a obtain i where i: "map_of (connections h) w' = Some i" "user_id i = u"
      unfolding hub_inv_iff by blast
    with u Some have "w' \<noteq> w" by auto
    moreover from auth u a have "is_authenticated h w'"
      unfolding subscribers_authenticated_iff by blast
    ultimately show ?thesis
      by (simp add: is_authenticated_def disconnect_connections delete_conv')
  qed
  with inv show ?thesis
    unfolding service_inv_def subscribers_authenticated_iff
    by (blast intro: hub_inv_disconnect)
qed

lemma service_inv_connect:
  assumes "service_inv h"
  shows "service_inv (snd (connect now h w))"
proof -
  let ?h = "snd (connect now h w)"
  from assms have inv: "hub_inv h" and auth: "subscribers_authenticated h"
    by (simp_all add: service_inv_def)
  have "is_authenticated ?h w'"
    if a: "(u, chans) \<in> set (subscriptions ?h)" "(c, sockets) \<in> set chans"
      "w' \<in> set sockets" for u chans c sockets w'
  proof -
    from inv have "distinct (map fst (subscriptions h))" by (simp add: hub_inv_def)
    with a(1) have "(u, chans) = (make_user_id w, []) \<or> ((u, chans) \<in> set (subscriptions h) \<and> u \<noteq> make_user_id w)"
      by (auto simp: connect_def Let_def set_update_distinct)
    with a(2) have u: "(u, chans) \<in> set (subscriptions h)" "u \<noteq> make_user_id w"
      by auto
    with inv a obtain i where i: "map_of (connections h) w' = Some i" "user_id i = u"
      unfolding hub_inv_iff by blast
    with inv have "u = make_user_id w'"
      unfolding hub_inv_iff by blast
    with u have "w' \<noteq> w" by auto
    moreover from auth u a have "is_authenticated h w'"
      unfolding subscribers_authenticated_iff by blast
    ultimately show ?thesis
      by (simp add: is_authenticated_def connect_def Let_def update_conv')
  qed
  with inv show ?thesis
    unfolding service_inv_def subscribers_authenticated_iff
    by (blast intro: hub_inv_connect)
qed

lemma service_inv_update_info:
  assumes "service_inv h" and w: "map_of (connections h) w = Some info"
    and uid: "user_id info' = user_id info"
    and mono: "authenticated info \<Longrightarrow> authenticated info'"
  shows "service_inv (h\<lparr>connections := AList.update w info' (connections h)\<rparr>)"
proof -
  let ?h = "h\<lparr>connections := AList.update w info' (connections h)\<rparr>"
  from assms have inv: "hub_inv h" and auth: "subscribers_authenticated h"
    by (simp_all add: service_inv_def)
  have "is_authenticated ?h w'" if "is_authenticated h w'" for w'
    using that w mono by (auto simp: is_authenticated_def update_conv')
  with auth have "subscribers_authenticated ?h"
    unfolding subscribers_authenticated_iff by simp
  with hub_inv_update_info [OF inv w uid] show ?thesis
    by (simp add: service_inv_def)
qed

lemma service_inv_update_last_seen: "service_inv h \<Longrightarrow> service_inv (update_last_seen now h w)"
  by (cases "map_of (connections h) w") (simp_all add: update_last_seen_def service_inv_update_info)

lemma service_inv_set_authenticated: "service_inv h \<Longrightarrow> service_inv (set_authenticated h w True)"
  by (cases "map_of (connections h) w") (simp_all add: set_authenticated_def service_inv_update_info)

lemma service_inv_subscribe:
  assumes "service_inv h" and auth: "is_authenticated h w" and s: "subscribe h w c = Some (b, h')"
  shows "service_inv h' \<and> is_authenticated h' w"
proof -
  from assms have inv: "hub_inv h" and P: "subscribers_authenticated h"
    by (simp_all add: service_inv_def)
  from s have c: "connections h' = connections h"
    by (simp add: subscribe_connections)
  then have o: "is_authenticated h' = is_authenticated h"
    by (simp add: fun_eq_iff is_authenticated_def)
  from inv have d: "distinct (map fst (subscriptions h))"
    by (simp add: hub_inv_def)
  have "every_subscriber (\<lambda>uid. is_authenticated h) (subscriptions h')"
    using P [unfolded subscribers_authenticated_def] d s
    by (rule every_subscriber_subscribe) (rule auth)
  with hub_inv_subscribe [OF inv s] auth show ?thesis
    by (simp add: service_inv_def subscribers_authenticated_def o)
qed

lemma service_inv_subscribe_each:
  "service_inv h \<Longrightarrow> is_authenticated h w \<Longrightarrow> service_inv (snd (subscribe_each h w cs))"
proof (induction cs arbitrary: h)
  case Nil
  then show ?case by simp
next
  case (Cons c cs)
  show ?case
  proof (cases "subscribe h w c")
    case None
    with Cons.prems show ?thesis by simp
  next
    case (Some r)
    obtain b h1 where r: "r = (b, h1)" by (cases r)
    from service_inv_subscribe [OF Cons.prems Some [unfolded r]] Cons.IH [of h1] Some r
    show ?thesis by simp
  qed
qed

subsection \<open>Every loop of the manager changes it by disconnecting sockets\<close>

lemma send_json_keeps:
  assumes "\<And>h w. I h \<Longrightarrow> I (disconnect h w)" and "I h"
  shows "I (fst (send_json ok now h w data))"
  using assms by (simp add: send_json_eq)

lemma broadcast_all_keeps:
  assumes step: "\<And>h w. I h \<Longrightarrow> I (disconnect h w)"
  shows "I h \<Longrightarrow> I (fst (snd (broadcast_all ok now data ws h n)))"
proof (induction ws arbitrary: h n)
  case Nil
  then show ?case by simp
next
  case (Cons w ws)
  from Cons.prems step have "I (fst (send_json ok now h w data))"
    by (simp add: send_json_eq)
  then have "I (fst (snd (broadcast_all ok now data ws (fst (send_json ok now h w data)) (n + 1))))"
    by (rule Cons.IH)
  then show ?case by (simp add: split_beta)
qed

lemma broadcast_sockets_keeps:
  assumes step: "\<And>h w. I h \<Longrightarrow> I (disconnect h w)"
  shows "I h \<Longrightarrow> I (fst (snd (broadcast_sockets ok now data ws h orphans n)))"
proof (induction ws arbitrary: h orphans n)
  case Nil
  then show ?case by simp
next
  case (Cons w ws)
  from Cons.prems step have "I (fst (send_json ok now h w data))"
    by (simp add: send_json_eq)
  then have "I (fst (snd (broadcast_sockets ok now data ws (fst (send_json ok now h w data))
      (if ok w then orphans else orphans @ orphan h w) (n + 1))))"
    by (rule Cons.IH)
  then show ?case by (simp add: split_beta Let_def)
qed

lemma broadcast_users_keeps:
  assumes step: "\<And>h w. I h \<Longrightarrow> I (disconnect h w)"
  shows "I h \<Longrightarrow> I (fst (snd (broadcast_users ok now data channel us h orphans n)))"
proof (induction us arbitrary: h orphans n)
  case Nil
  then show ?case by simp
next
  case (Cons uid us)
  show ?case
  proof (cases "map_of (channels_of orphans h uid) channel")
    case None
    with Cons.IH [OF Cons.prems] show ?thesis by simp
  next
    case (Some sockets)
    let ?r = "broadcast_sockets ok now data sockets h orphans n"
    have "I (fst (snd ?r))"
      using step Cons.prems by (rule broadcast_sockets_keeps)
    then have "I (fst (snd (broadcast_users ok now data channel us (fst (snd ?r)) (fst (snd (snd ?r))) (fst ?r))))"
      by (rule Cons.IH)
    with Some show ?thesis by (simp add: split_beta)
  qed
qed

lemma broadcast_keeps:
  assumes "\<And>h w. I h \<Longrightarrow> I (disconnect h w)" and "I h"
  shows "I (fst (snd (broadcast ok now h data channel)))"
  using broadcast_all_keeps [where I = I and h = h, OF assms]
    broadcast_users_keeps [where I = I and h = h, OF assms]
  by (simp add: broadcast_def split_beta)

lemma prune_loop_keeps:
  assumes step: "\<And>h w. I h \<Longrightarrow> I (disconnect h w)"
  shows "I h \<Longrightarrow> I (fst (prune_loop stale h))"
proof (induction stale arbitrary: h)
  case Nil
  then show ?case by simp
next
  case (Cons w stale)
  from Cons.prems have "I (disconnect h w)" by (rule step)
  then have "I (fst (prune_loop stale (disconnect h w)))" by (rule Cons.IH)
  then show ?case by (simp add: split_beta)
qed

lemma prune_keeps:
  assumes "\<And>h w. I h \<Longrightarrow> I (disconnect h w)" and "I h"
  shows "I (fst (snd (prune_stale_connections now h timeout)))"
  using prune_loop_keeps [where I = I and h = h, OF assms]
  by (simp add: prune_stale_connections_def Let_def split_beta)

subsection \<open>Reachable managers are well formed\<close>

lemma is_authenticated_update_last_seen:
  "is_authenticated (update_last_seen now h w) w' = is_authenticated h w'"
  by (auto simp: is_authenticated_def update_last_seen_def update_conv' split: option.splits)

lemma service_inv_send_json: "service_inv h \<Longrightarrow> service_inv (fst (send_json ok now h w data))"
  by (simp add: send_json_eq service_inv_disconnect)

lemma service_inv_handle_auth: "service_inv h \<Longrightarrow> service_inv (fst (snd (handle_auth ok now h w token)))"
  by (simp add: handle_auth_def split_beta Let_def service_inv_send_json service_inv_set_authenticated)

lemma service_inv_handle_subscribe:
  "service_inv h \<Longrightarrow> is_authenticated h w \<Longrightarrow>
     service_inv (fst (snd (handle_subscribe ok now h w cs)))"
  using service_inv_subscribe_each [of h w cs]
  by (cases "subscribe_each h w cs")
     (auto simp: handle_subscribe_def split_beta Let_def service_inv_send_json split: bool.splits)

lemma service_inv_turn:
  assumes "service_inv h"
  shows "service_inv (fst (snd (websocket_events_turn ok now h w r)))"
proof (cases r)
  case Receive_raised
  with assms show ?thesis
    by (simp add: websocket_events_turn_def service_inv_disconnect)
next
  case (Frame data)
  let ?h0 = "update_last_seen now h w"
  from assms have h0: "service_inv ?h0"
    by (rule service_inv_update_last_seen)
  show ?thesis
  proof (cases data)
    case (Auth_frame token)
    with Frame h0 show ?thesis
      by (cases token)
         (simp_all add: websocket_events_turn_def Let_def split_beta service_inv_disconnect
            service_inv_handle_auth)
  next
    case (Ping_frame t)
    with Frame h0 show ?thesis
      by (simp add: websocket_events_turn_def Let_def split_beta service_inv_send_json)
  next
    case (Subscribe_frame chs)
    show ?thesis
    proof (cases "is_authenticated ?h0 w")
      case False
      with Frame Subscribe_frame h0 show ?thesis
        by (simp add: websocket_events_turn_def Let_def service_inv_disconnect)
    next
      case True
      show ?thesis
      proof (cases chs)
        case None
        with True Frame Subscribe_frame h0 show ?thesis
          by (simp add: websocket_events_turn_def Let_def service_inv_disconnect)
      next
        case (Some cs)
        from h0 True have "service_inv (fst (snd (handle_subscribe ok now ?h0 w cs)))"
          by (rule service_inv_handle_subscribe)
        with True Some Frame Subscribe_frame show ?thesis
          by (cases "handle_subscribe ok now ?h0 w cs")
             (auto simp: websocket_events_turn_def Let_def service_inv_disconnect split: bool.splits)
      qed
    qed
  next
    case Other_frame
    with Frame h0 show ?thesis
      by (simp add: websocket_events_turn_def Let_def)
  qed
qed

lemma reachable_service_inv: "reachable h \<Longrightarrow> service_inv h"
proof (induction rule: reachable.induct)
  case fresh
  show ?case by (rule service_inv_ConnectionManager)
next
  case (tokens h tokens)
  then show ?case by (simp add: service_inv_set_valid_tokens)
next
  case (connected h now websocket)
  then show ?case by (simp add: service_inv_connect)
next
  case (turn h ok now websocket r)
  then show ?case by (simp add: service_inv_turn)
next
  case (broadcasted h ok now data channel)
  then show ?case by (simp add: broadcast_keeps [where I = service_inv] service_inv_disconnect)
next
  case (pruned h now timeout)
  then show ?case by (simp add: prune_keeps [where I = service_inv] service_inv_disconnect)
qed

lemma subscribers_iff:
  "w \<in> set (subscribers h c) \<longleftrightarrow>
     (\<exists>uid chans sockets. (uid, chans) \<in> set (subscriptions h) \<and> map_of chans c = Some sockets
        \<and> w \<in> set sockets)"
proof
  assume "w \<in> set (subscribers h c)"
  then obtain p where p: "p \<in> set (subscriptions h)"
      "w \<in> set (case map_of (snd p) c of None \<Rightarrow> [] | Some sockets \<Rightarrow> sockets)"
    by (auto simp: subscribers_def split_beta)
  from p(2) obtain sockets where "map_of (snd p) c = Some sockets" "w \<in> set sockets"
    by (cases "map_of (snd p) c") auto
  with p(1) show "\<exists>uid chans sockets. (uid, chans) \<in> set (subscriptions h)
      \<and> map_of chans c = Some sockets \<and> w \<in> set sockets"
    by (metis prod.collapse)
next
  assume "\<exists>uid chans sockets. (uid, chans) \<in> set (subscriptions h)
      \<and> map_of chans c = Some sockets \<and> w \<in> set sockets"
  then obtain uid chans sockets where a: "(uid, chans) \<in> set (subscriptions h)"
      "map_of chans c = Some sockets" "w \<in> set sockets"
    by blast
  then have "w \<in> set (case map_of (snd (uid, chans)) c of None \<Rightarrow> [] | Some sockets \<Rightarrow> sockets)"
    by simp
  with a(1) show "w \<in> set (subscribers h c)"
    unfolding subscribers_def split_beta set_concat set_map by blast
qed

lemma subscribers_live:
  "hub_inv h \<Longrightarrow> w \<in> set (subscribers h c) \<Longrightarrow> map_of (connections h) w \<noteq> None"
  unfolding subscribers_iff hub_inv_iff
  by (fastforce dest: map_of_SomeD)

lemma subscribers_are_authenticated:
  "service_inv h \<Longrightarrow> w \<in> set (subscribers h c) \<Longrightarrow> is_authenticated h w"
  unfolding subscribers_iff service_inv_def subscribers_authenticated_iff
  by (blast dest: map_of_SomeD)

lemma disconnected_not_subscribed:
  assumes "hub_inv h"
  shows "w \<notin> set (subscribers (disconnect h w) c)"
proof
  assume "w \<in> set (subscribers (disconnect h w) c)"
  with hub_inv_disconnect [OF assms] have "map_of (connections (disconnect h w)) w \<noteq> None"
    by (rule subscribers_live)
  then show False
    by (simp add: disconnect_connections delete_conv')
qed

subsection \<open>Failed sends and the connection registry\<close>

lemma filter_delete:
  "\<not> ok w \<Longrightarrow>
     filter (\<lambda>p. ok (fst p) \<or> fst p \<notin> set ws) (AList.delete w al)
       = filter (\<lambda>p. ok (fst p) \<or> fst p \<notin> set (w # ws)) al"
  by (induction al) auto

lemma filter_ok_cons:
  "ok w \<Longrightarrow>
     filter (\<lambda>p. ok (fst p) \<or> fst p \<notin> set ws) al
       = filter (\<lambda>p. ok (fst p) \<or> fst p \<notin> set (w # ws)) al"
  by (rule filter_cong) auto

lemma broadcast_all_connections:
  "connections (fst (snd (broadcast_all ok now data ws h n)))
     = filter (\<lambda>p. ok (fst p) \<or> fst p \<notin> set ws) (connections h)"
proof (induction ws arbitrary: h n)
  case Nil
  show ?case by simp
next
  case (Cons w ws)
  show ?case
    using Cons.IH [of "fst (send_json ok now h w data)" "n + 1"]
    by (cases "ok w")
       (simp_all add: split_beta send_json_eq disconnect_connections filter_delete
          filter_ok_cons [of ok w ws])
qed

lemma broadcast_sockets_connections:
  "connections (fst (snd (broadcast_sockets ok now data ws h orphans n)))
     = filter (\<lambda>p. ok (fst p) \<or> fst p \<notin> set ws) (connections h)"
proof (induction ws arbitrary: h orphans n)
  case Nil
  show ?case by simp
next
  case (Cons w ws)
  show ?case
    using Cons.IH [of "fst (send_json ok now h w data)"
        "if ok w then orphans else orphans @ orphan h w" "n + 1"]
    by (cases "ok w")
       (simp_all add: split_beta send_json_eq disconnect_connections filter_delete Let_def
          filter_ok_cons [of ok w ws])
qed

lemma broadcast_users_connections:
  "connections (fst (snd (broadcast_users ok now data channel us h orphans n)))
     = filter (\<lambda>p. ok (fst p) \<or>
         fst p \<notin> set (attempted (snd (snd (snd (broadcast_users ok now data channel us h orphans n))))))
         (connections h)"
proof (induction us arbitrary: h orphans n)
  case Nil
  show ?case by simp
next
  case (Cons uid us)
  show ?case
  proof (cases "map_of (channels_of orphans h uid) channel")
    case None
    with Cons.IH show ?thesis by simp
  next
    case (Some sockets)
    let ?r = "broadcast_sockets ok now data sockets h orphans n"
    from Some Cons.IH [of "fst (snd ?r)" "fst (snd (snd ?r))" "fst ?r"] show ?thesis
      by (auto simp: split_beta attempted_append broadcast_sockets_attempted
          broadcast_sockets_connections intro: filter_cong)
  qed
qed

text \<open>
  After a broadcast the registry holds the connections it held before but those whose
  send failed: each failed socket is disconnected, no other is.
\<close>

lemma broadcast_connections:
  "connections (fst (snd (broadcast ok now h data channel)))
     = filter (\<lambda>p. ok (fst p) \<or> fst p \<notin> set (attempted (snd (snd (broadcast ok now h data channel)))))
         (connections h)"
  using broadcast_users_connections [of ok now data channel "map fst (subscriptions h)" h "[]" 0]
  by (simp add: broadcast_def split_beta broadcast_all_connections broadcast_all_attempted)

subsection \<open>Claims about the hub\<close>

lemma make_user_id_examples:
  "make_user_id (Suc 0) = ''ws_user_1''" "make_user_id 2 = ''ws_user_2''" "make_user_id 3 = ''ws_user_3''"
  by (simp_all add: make_user_id_def str_nat.simps digit_char_def)

lemma hub_inv_example_hub: "hub_inv example_hub"
  by (simp add: hub_inv_def example_hub_def every_subscriber_def owner_def make_user_id_examples)

text \<open>
  Claim C1 (the code departs from it). The claim has \<open>broadcast\<close> return the number of
  connections to which delivery succeeded. In the code \<open>send_json\<close> catches the failure
  of a send and disconnects the socket itself, so the \<open>except\<close> clause around it in
  \<open>broadcast\<close> never runs and \<open>sent_count\<close> goes up for the failed send too: with
  three live connections of which the second is dead, a wildcard broadcast delivers to
  two connections, disconnects the dead one, and returns 3.
\<close>

theorem broadcast_counts_failed_sends:
  "fst (broadcast (\<lambda>w. w \<noteq> 2) 120 example_hub example_frame ''*'') = 3
   \<and> attempted (snd (snd (broadcast (\<lambda>w. w \<noteq> 2) 120 example_hub example_frame ''*''))) = [1, 2, 3]
   \<and> delivered (snd (snd (broadcast (\<lambda>w. w \<noteq> 2) 120 example_hub example_frame ''*''))) = [1, 3]
   \<and> map fst (connections (fst (snd (broadcast (\<lambda>w. w \<noteq> 2) 120 example_hub example_frame ''*''))))
        = [1, 3]"
proof -
  have a: "attempted (snd (snd (broadcast (\<lambda>w. w \<noteq> 2) 120 example_hub example_frame ''*''))) = [1, 2, 3]"
    by (simp add: broadcast_def broadcast_all_attempted) (simp add: example_hub_def)
  have "connections example_hub
      = [(1, \<lparr>user_id = ''ws_user_1'', authenticated = True, last_seen = 0\<rparr>),
         (2, \<lparr>user_id = ''ws_user_2'', authenticated = True, last_seen = 110\<rparr>),
         (3, \<lparr>user_id = ''ws_user_3'', authenticated = False, last_seen = 115\<rparr>)]"
    by (simp add: example_hub_def)
  with a show ?thesis
    by (simp add: broadcast_counts_attempts broadcast_delivered broadcast_connections)
qed

text \<open>
  Claim C8. A broadcast on the wildcard channel attempts delivery to every live
  connection, once each, whatever the subscriptions; on any other channel of a
  well-formed manager it attempts delivery to exactly the sockets in that channel's
  subscriber sets.
\<close>

theorem broadcast_recipients:
  "attempted (snd (snd (broadcast ok now h data ''*''))) = map fst (connections h)
   \<and> (hub_inv h \<longrightarrow> channel \<noteq> ''*'' \<longrightarrow>
        attempted (snd (snd (broadcast ok now h data channel))) = subscribers h channel)"
  by (simp add: broadcast_channel_attempted) (simp add: broadcast_def broadcast_all_attempted)

theorem broadcast_recipients_witness:
  "hub_inv example_hub
   \<and> attempted (snd (snd (broadcast (\<lambda>w. True) 120 example_hub example_frame ''*''))) = [1, 2, 3]
   \<and> attempted (snd (snd (broadcast (\<lambda>w. True) 120 example_hub example_frame ''messages''))) = [1]"
  using broadcast_recipients [of "\<lambda>w. True" 120 example_hub example_frame "''messages''"]
    hub_inv_example_hub
  by (simp add: subscribers_def) (simp add: example_hub_def)

text \<open>
  Claim C9. On a well-formed manager \<open>prune_stale_connections(timeout)\<close> closes (with
  code 1000) and disconnects exactly the connections with \<open>now - last_seen > timeout\<close>:
  the registry keeps exactly the others, no pruned socket remains in a subscriber set,
  and the number returned is the number of connections pruned.
\<close>

theorem prune_stale_connections_exact:
  "hub_inv h \<longrightarrow>
     fst (prune_stale_connections now h timeout) = length (filter (is_stale now timeout) (connections h))
   \<and> closes (snd (snd (prune_stale_connections now h timeout)))
       = map (\<lambda>(w, info). (w, 1000)) (filter (is_stale now timeout) (connections h))
   \<and> connections (fst (snd (prune_stale_connections now h timeout)))
       = filter (\<lambda>c. \<not> is_stale now timeout c) (connections h)
   \<and> (\<forall>w c. w \<in> fst ` set (filter (is_stale now timeout) (connections h)) \<longrightarrow>
         w \<notin> set (subscribers (fst (snd (prune_stale_connections now h timeout))) c))"
proof
  assume inv: "hub_inv h"
  let ?h' = "fst (snd (prune_stale_connections now h timeout))"
  from inv have d: "distinct (map fst (connections h))"
    by (simp add: hub_inv_def)
  have s: "is_stale now timeout = (\<lambda>(w, info). now - last_seen info > timeout)"
    by (simp add: is_stale_def)
  have c: "connections ?h' = filter (\<lambda>c. \<not> is_stale now timeout c) (connections h)"
    using prune_result(1) [OF d, of now timeout] by (simp add: s case_prod_unfold)
  have inv': "hub_inv ?h'"
    using hub_inv_disconnect inv by (rule prune_keeps)
  have gone: "w \<notin> set (subscribers ?h' ch)"
    if "w \<in> fst ` set (filter (is_stale now timeout) (connections h))" for w ch
  proof
    assume "w \<in> set (subscribers ?h' ch)"
    with inv' have "map_of (connections ?h') w \<noteq> None"
      by (rule subscribers_live)
    then obtain info where "(w, info) \<in> set (connections ?h')"
      by (auto dest: map_of_SomeD)
    then have "(w, info) \<in> set (connections h)" "\<not> is_stale now timeout (w, info)"
      by (simp_all add: c)
    moreover from that obtain info' where "(w, info') \<in> set (connections h)" "is_stale now timeout (w, info')"
      by auto
    ultimately show False
      using d by (auto dest: eq_key_imp_eq_value)
  qed
  from c gone prune_result(2,3) [OF d, of now timeout]
  show "fst (prune_stale_connections now h timeout) = length (filter (is_stale now timeout) (connections h))
   \<and> closes (snd (snd (prune_stale_connections now h timeout)))
       = map (\<lambda>(w, info). (w, 1000)) (filter (is_stale now timeout) (connections h))
   \<and> connections ?h' = filter (\<lambda>c. \<not> is_stale now timeout c) (connections h)
   \<and> (\<forall>w c. w \<in> fst ` set (filter (is_stale now timeout) (connections h)) \<longrightarrow>
         w \<notin> set (subscribers ?h' c))"
    by (simp add: s)
qed

text \<open>
  The example of the claim: at time 120 with timeout 90, connection 1 (last seen 120
  seconds ago) is pruned; connections 2 and 3 (last seen 10 and 5 seconds ago) stay.
\<close>

theorem prune_stale_connections_exact_witness:
  "hub_inv example_hub
   \<and> fst (prune_stale_connections 120 example_hub 90) = 1
   \<and> closes (snd (snd (prune_stale_connections 120 example_hub 90))) = [(1, 1000)]
   \<and> map fst (connections (fst (snd (prune_stale_connections 120 example_hub 90)))) = [2, 3]"
  using prune_stale_connections_exact [of example_hub 120 90] hub_inv_example_hub
  by (simp add: is_stale_def) (simp add: example_hub_def)

text \<open>
  Claim C7. For an auth frame whose token is not among the valid tokens, \<open>handle_auth\<close>
  reports failure, issues no \<open>close\<close>, and sends the connection one frame, the error
  frame with code 401; no unauthenticated connection becomes authenticated, and when
  the socket takes the frame the manager is exactly as before. For a token among the
  valid tokens, on a live connection whose socket takes the frame, the connection's
  \<open>authenticated\<close> flag is set and the frame sent is the \<open>auth_ack\<close> frame.
  (A send that fails is the case of claim C1: \<open>send_json\<close> then disconnects the socket.)
\<close>

theorem handle_auth_contract:
  "(token \<notin> valid_tokens h \<longrightarrow>
        fst (handle_auth ok now h w token) = False
      \<and> closes (snd (snd (handle_auth ok now h w token))) = []
      \<and> snd (snd (handle_auth ok now h w token)) =
          [(if ok w then Sent w else Send_failed w)
             \<lparr>ws_type = ''error'', ws_channel = ''system'', ws_timestamp = int_of_float now,
              ws_payload = Some [(''error'', PStr ''Invalid token''), (''code'', PInt 401)]\<rparr>]
      \<and> (ok w \<longrightarrow> fst (snd (handle_auth ok now h w token)) = h)
      \<and> (\<forall>w'. \<not> is_authenticated h w' \<longrightarrow>
            \<not> is_authenticated (fst (snd (handle_auth ok now h w token))) w'))
   \<and> (token \<in> valid_tokens h \<longrightarrow>
        (\<forall>info. map_of (connections h) w = Some info \<longrightarrow> ok w \<longrightarrow>
           handle_auth ok now h w token =
             (True, set_authenticated h w True,
              [Sent w \<lparr>ws_type = ''auth_ack'', ws_channel = ''system'',
                        ws_timestamp = int_of_float now,
                        ws_payload = Some [(''user_id'', PStr (user_id info)),
                                           (''status'', PStr ''authenticated'')]\<rparr>])
         \<and> is_authenticated (set_authenticated h w True) w
         \<and> (\<forall>w'. w' \<noteq> w \<longrightarrow>
               map_of (connections (set_authenticated h w True)) w' = map_of (connections h) w')))"
proof (intro conjI impI allI)
  assume t: "token \<notin> valid_tokens h"
  show "fst (handle_auth ok now h w token) = False"
    using t by (rule handle_auth_invalid(1))
  show "snd (snd (handle_auth ok now h w token)) =
          [(if ok w then Sent w else Send_failed w)
             \<lparr>ws_type = ''error'', ws_channel = ''system'', ws_timestamp = int_of_float now,
              ws_payload = Some [(''error'', PStr ''Invalid token''), (''code'', PInt 401)]\<rparr>]"
    using handle_auth_invalid(2) [OF t] by (simp add: auth_error_def)
  then show "closes (snd (snd (handle_auth ok now h w token))) = []"
    by simp
  show "fst (snd (handle_auth ok now h w token)) = h" if "ok w"
    using t that by (rule handle_auth_invalid(3))
  show "\<not> is_authenticated (fst (snd (handle_auth ok now h w token))) w'"
    if "\<not> is_authenticated h w'" for w'
    using t that by (rule handle_auth_invalid(4))
next
  fix info
  assume a: "token \<in> valid_tokens h" "map_of (connections h) w = Some info" "ok w"
  show "handle_auth ok now h w token =
             (True, set_authenticated h w True,
              [Sent w \<lparr>ws_type = ''auth_ack'', ws_channel = ''system'',
                        ws_timestamp = int_of_float now,
                        ws_payload = Some [(''user_id'', PStr (user_id info)),
                                           (''status'', PStr ''authenticated'')]\<rparr>])"
    using handle_auth_valid(1) [where ok = ok and now = now, OF a] by (simp add: auth_ack_def)
  show "is_authenticated (set_authenticated h w True) w"
    using a by (rule handle_auth_valid(2))
  show "map_of (connections (set_authenticated h w True)) w' = map_of (connections h) w'"
    if "w' \<noteq> w" for w'
    using that a(2) by (simp add: set_authenticated_def update_conv')
qed

theorem handle_auth_contract_witness:
  "''wrong'' \<notin> valid_tokens example_hub
   \<and> handle_auth (\<lambda>w. True) 120 example_hub 3 ''wrong'' =
       (False, example_hub,
        [Sent 3 \<lparr>ws_type = ''error'', ws_channel = ''system'', ws_timestamp = 120,
                  ws_payload = Some [(''error'', PStr ''Invalid token''), (''code'', PInt 401)]\<rparr>])
   \<and> \<not> is_authenticated example_hub 3
   \<and> ''secret'' \<in> valid_tokens example_hub
   \<and> fst (handle_auth (\<lambda>w. True) 120 example_hub 3 ''secret'') = True
   \<and> is_authenticated (fst (snd (handle_auth (\<lambda>w. True) 120 example_hub 3 ''secret''))) 3
   \<and> snd (snd (handle_auth (\<lambda>w. True) 120 example_hub 3 ''secret'')) =
        [Sent 3 \<lparr>ws_type = ''auth_ack'', ws_channel = ''system'', ws_timestamp = 120,
                  ws_payload = Some [(''user_id'', PStr ''ws_user_3''),
                                     (''status'', PStr ''authenticated'')]\<rparr>]"
proof -
  have c: "map_of (connections example_hub) 3
      = Some \<lparr>user_id = ''ws_user_3'', authenticated = False, last_seen = 115\<rparr>"
    and v: "valid_tokens example_hub = {''secret''}"
    by (simp_all add: example_hub_def)
  have i: "int_of_float 120 = 120"
    by (simp add: int_of_float_def)
  have p: "handle_auth (\<lambda>w. True) 120 example_hub 3 ''wrong''
      = (fst (handle_auth (\<lambda>w. True) 120 example_hub 3 ''wrong''),
         fst (snd (handle_auth (\<lambda>w. True) 120 example_hub 3 ''wrong'')),
         snd (snd (handle_auth (\<lambda>w. True) 120 example_hub 3 ''wrong'')))"
    by simp
  show ?thesis
    using handle_auth_contract [of "''wrong''" example_hub "\<lambda>w. True" 120 3]
      handle_auth_contract [of "''secret''" example_hub "\<lambda>w. True" 120 3]
    by (subst p) (simp add: c v i is_authenticated_def)
qed

text \<open>
  Claim C6. In every reachable state of the manager all subscribers are authenticated
  connections; and the endpoint answers a subscribe frame of a connection that is not
  authenticated, whatever channels it names, by closing the socket with code 4008 and
  leaving its loop, after which the connection is disconnected and in no subscriber
  set. The check is the endpoint's: \<open>subscribe\<close> itself tests nothing.
\<close>

theorem unauthenticated_subscribe_rejected:
  "reachable h \<longrightarrow>
     (\<forall>c w. w \<in> set (subscribers h c) \<longrightarrow> is_authenticated h w)
   \<and> (\<forall>w. \<not> is_authenticated h w \<longrightarrow>
         websocket_events_turn ok now h w (Frame (Subscribe_frame chs))
           = (False, disconnect (update_last_seen now h w) w, [Closed w 4008])
       \<and> (\<forall>c. w \<notin> set (subscribers h c))
       \<and> (\<forall>c. w \<notin> set (subscribers (disconnect (update_last_seen now h w) w) c)))"
proof
  assume "reachable h"
  then have inv: "service_inv h"
    by (rule reachable_service_inv)
  then have auth: "is_authenticated h w" if "w \<in> set (subscribers h c)" for w c
    using that by (rule subscribers_are_authenticated)
  from inv have "hub_inv (update_last_seen now h w)" for w
    by (simp add: service_inv_def hub_inv_update_last_seen)
  then have gone: "w \<notin> set (subscribers (disconnect (update_last_seen now h w) w) c)" for w c
    by (rule disconnected_not_subscribed)
  have turn: "websocket_events_turn ok now h w (Frame (Subscribe_frame chs))
           = (False, disconnect (update_last_seen now h w) w, [Closed w 4008])"
    if "\<not> is_authenticated h w" for w
    using that by (simp add: websocket_events_turn_def Let_def is_authenticated_update_last_seen)
  from auth gone turn
  show "(\<forall>c w. w \<in> set (subscribers h c) \<longrightarrow> is_authenticated h w)
   \<and> (\<forall>w. \<not> is_authenticated h w \<longrightarrow>
         websocket_events_turn ok now h w (Frame (Subscribe_frame chs))
           = (False, disconnect (update_last_seen now h w) w, [Closed w 4008])
       \<and> (\<forall>c. w \<notin> set (subscribers h c))
       \<and> (\<forall>c. w \<notin> set (subscribers (disconnect (update_last_seen now h w) w) c)))"
    by blast
qed

text \<open>
  A connection that has just connected to the fresh manager asks for \<open>messages\<close>: the
  socket is closed with 4008 and the manager is empty again.
\<close>

lemma connect_fresh:
  "snd (connect 0 ConnectionManager 7) =
     \<lparr>connections = [(7, \<lparr>user_id = ''ws_user_7'', authenticated = False, last_seen = 0\<rparr>)],
      subscriptions = [(''ws_user_7'', [])],
      valid_tokens = {''your_api_token''}\<rparr>"
  by (simp add: connect_def ConnectionManager_def Let_def make_user_id_def str_nat.simps digit_char_def)

theorem unauthenticated_subscribe_rejected_witness:
  "reachable (snd (connect 0 ConnectionManager 7))
   \<and> \<not> is_authenticated (snd (connect 0 ConnectionManager 7)) 7
   \<and> websocket_events_turn (\<lambda>w. True) 5 (snd (connect 0 ConnectionManager 7)) 7
        (Frame (Subscribe_frame (Some [''messages''])))
       = (False,
          \<lparr>connections = [], subscriptions = [], valid_tokens = {''your_api_token''}\<rparr>,
          [Closed 7 4008])"
proof -
  have r: "reachable (snd (connect 0 ConnectionManager 7))"
    by (rule reachable.connected [OF reachable.fresh])
  have d: "disconnect (update_last_seen 5 (snd (connect 0 ConnectionManager 7)) 7) 7
      = \<lparr>connections = [], subscriptions = [], valid_tokens = {''your_api_token''}\<rparr>"
    by (simp add: connect_fresh update_last_seen_def disconnect_def unsubscribe_all_def)
  have n: "\<not> is_authenticated (snd (connect 0 ConnectionManager 7)) 7"
    by (simp add: connect_fresh is_authenticated_def)
  from unauthenticated_subscribe_rejected [of "snd (connect 0 ConnectionManager 7)"
      "\<lambda>w. True" 5 "Some [''messages'']"] r n
  have "websocket_events_turn (\<lambda>w. True) 5 (snd (connect 0 ConnectionManager 7)) 7
        (Frame (Subscribe_frame (Some [''messages''])))
      = (False, disconnect (update_last_seen 5 (snd (connect 0 ConnectionManager 7)) 7) 7,
         [Closed 7 4008])"
    by blast
  with r n d show ?thesis
    by simp
qed

end
